theory Spec2Isabelle
  imports Complex_Main
begin

section \<open>Errors and Python helpers\<close>

text \<open>Exceptions of the Python source, as values.\<close>

datatype py_error = IndexError | KeyError | ValueError | TypeError | ZeroDivisionError
  | OverflowError | RuntimeError | IOError

text \<open>Python's \<open>xs[a:b]\<close> for integer bounds (step 1): a negative bound counts from the
  end, and both bounds are clipped to the list.\<close>

definition py_bound :: "int \<Rightarrow> nat \<Rightarrow> nat" where
  "py_bound a n = (if a < 0 then nat (max 0 (a + int n)) else min (nat a) n)"

definition py_slice :: "int \<Rightarrow> int \<Rightarrow> 'a list \<Rightarrow> 'a list" where
  "py_slice a b xs =
     (let lo = py_bound a (length xs); hi = py_bound b (length xs)
      in take (hi - lo) (drop lo xs))"

section \<open>Two-dimensional arrays\<close>

text \<open>A 2-D numpy array: its shape \<open>(nrows, ncols)\<close> and its rows. The shape is kept
  beside the rows because an array with no rows still has a column count.\<close>

record 'a img =
  nrows :: nat
  ncols :: nat
  rows :: "'a list list"

definition wf_img :: "'a img \<Rightarrow> bool" where
  "wf_img a = (length (rows a) = nrows a \<and> list_all (\<lambda>r. length r = ncols a) (rows a))"

text \<open>\<open>img[a:b, :]\<close> and \<open>img[:, a:b]\<close>.\<close>

definition slice_rows :: "int \<Rightarrow> int \<Rightarrow> 'a img \<Rightarrow> 'a img" where
  "slice_rows a b m =
     (let rs = py_slice a b (rows m) in \<lparr>nrows = length rs, ncols = ncols m, rows = rs\<rparr>)"

definition slice_cols :: "int \<Rightarrow> int \<Rightarrow> 'a img \<Rightarrow> 'a img" where
  "slice_cols a b m =
     \<lparr>nrows = nrows m,
      ncols = py_bound b (ncols m) - py_bound a (ncols m),
      rows = map (py_slice a b) (rows m)\<rparr>"

text \<open>\<open>np.pad(img, ((t, b), (0, 0)), 'constant')\<close> and
  \<open>np.pad(img, ((0, 0), (l, r)), 'constant')\<close>: zero filling.\<close>

definition pad_rows :: "nat \<Rightarrow> nat \<Rightarrow> 'a::zero img \<Rightarrow> 'a img" where
  "pad_rows t b m =
     \<lparr>nrows = t + nrows m + b, ncols = ncols m,
      rows = replicate t (replicate (ncols m) 0) @ rows m @ replicate b (replicate (ncols m) 0)\<rparr>"

definition pad_cols :: "nat \<Rightarrow> nat \<Rightarrow> 'a::zero img \<Rightarrow> 'a img" where
  "pad_cols l r m =
     \<lparr>nrows = nrows m, ncols = l + ncols m + r,
      rows = map (\<lambda>row. replicate l 0 @ row @ replicate r 0) (rows m)\<rparr>"

text \<open>\<open>MRISimulatorModel.crop_or_pad\<close>: \<open>//\<close> on Python integers is floor division,
  which is \<open>div\<close> on \<open>int\<close>.\<close>

definition crop_or_pad :: "'a::zero img \<Rightarrow> int \<Rightarrow> 'a img" where
  "crop_or_pad m target_size =
     (let h = int (nrows m); w = int (ncols m);
          diff_h = h - target_size;
          diff_w = w - target_size
      in if diff_h = 0 \<and> diff_w = 0 then m
         else
           let m1 = (if diff_h \<ge> 0
                     then (let start = diff_h div 2 in slice_rows start (start + target_size) m)
                     else (let pad_top = \<bar>diff_h\<bar> div 2
                           in pad_rows (nat pad_top) (nat (\<bar>diff_h\<bar> - pad_top)) m));
               m2 = (if diff_w \<ge> 0
                     then (let start = diff_w div 2 in slice_cols start (start + target_size) m1)
                     else (let pad_left = \<bar>diff_w\<bar> div 2
                           in pad_cols (nat pad_left) (nat (\<bar>diff_w\<bar> - pad_left)) m1))
           in m2)"

section \<open>The axial slice window\<close>

text \<open>\<open>int(thickness / 2)\<close> for a Python integer \<open>thickness\<close>: the true division rounds
  the quotient to a float (53 significant bits, ties to even) and raises OverflowError when
  the quotient is too large for a float; \<open>int\<close> truncates toward zero.\<close>

fun bit_length :: "nat \<Rightarrow> nat" where
  "bit_length n = (if n = 0 then 0 else Suc (bit_length (n div 2)))"

definition round53 :: "nat \<Rightarrow> nat" where
  "round53 n =
     (let l = bit_length n
      in if l \<le> 53 then n
         else
           let s = l - 53; q = n div 2 ^ s; r = n mod 2 ^ s; half = 2 ^ (s - 1);
               q' = (if r > half \<or> (r = half \<and> odd q) then q + 1 else q)
           in q' * 2 ^ s)"

definition float_max_exp :: nat where
  "float_max_exp = 1024"

definition int_half :: "int \<Rightarrow> py_error + int" where
  "int_half t =
     (let m = round53 (nat \<bar>t\<bar>)
      in if m div 2 \<ge> 2 ^ float_max_exp then Inl OverflowError
         else Inr (sgn t * int (m div 2)))"

text \<open>The window of \<open>calculate_image\<close> for the axial plane: \<open>z_center\<close>, \<open>z_start\<close>,
  \<open>z_end\<close>.\<close>

definition axial_window :: "int \<Rightarrow> int \<Rightarrow> int \<Rightarrow> py_error + (int \<times> int \<times> int)" where
  "axial_window max_slice slice_idx thickness =
     (let z_center = max 0 (min slice_idx (max_slice - 1))
      in case int_half thickness of
           Inl e \<Rightarrow> Inl e
         | Inr q \<Rightarrow>
             let half_thick = max 0 q;
                 z_start = max 0 (z_center - half_thick);
                 z_end = min max_slice (z_center + half_thick + 1);
                 z_end = (if z_end \<le> z_start then z_start + 1 else z_end)
             in Inr (z_center, z_start, z_end))"


section \<open>Floating-point values\<close>

text \<open>An element of a float64 array: a finite value, an infinity or NaN. A finite result
  of an operation is taken as the exact real when it lies in the range of float64, and
  overflows to an infinity beyond the largest float (rounding inside the range, underflow
  and the sign of zero are not modelled); the special values follow IEEE 754 as numpy
  applies it elementwise, where a division by zero gives an infinity or NaN and raises
  nothing.\<close>

datatype fval = Fin real | PInf | NInf | NaN

text \<open>The largest finite float64.\<close>

definition float_max :: real where
  "float_max = (2 - 1 / 2 ^ 52) * 2 ^ 1023"

text \<open>The result of an operation whose exact value is \<open>x\<close>: overflow gives an infinity.\<close>

definition fin :: "real \<Rightarrow> fval" where
  "fin x = (if x > float_max then PInf else if x < - float_max then NInf else Fin x)"

instantiation fval :: zero
begin

definition zero_fval :: fval where
  "zero_fval = Fin 0"

instance ..

end

fun fneg :: "fval \<Rightarrow> fval" where
  "fneg (Fin x) = Fin (- x)"
| "fneg PInf = NInf"
| "fneg NInf = PInf"
| "fneg NaN = NaN"

fun fadd :: "fval \<Rightarrow> fval \<Rightarrow> fval" where
  "fadd NaN _ = NaN"
| "fadd _ NaN = NaN"
| "fadd (Fin x) (Fin y) = fin (x + y)"
| "fadd PInf NInf = NaN"
| "fadd NInf PInf = NaN"
| "fadd PInf _ = PInf"
| "fadd _ PInf = PInf"
| "fadd NInf _ = NInf"
| "fadd _ NInf = NInf"

definition fsub :: "fval \<Rightarrow> fval \<Rightarrow> fval" where
  "fsub a b = fadd a (fneg b)"

text \<open>An infinity with the sign of a non-zero real.\<close>

definition inf_of_sign :: "real \<Rightarrow> fval" where
  "inf_of_sign x = (if x > 0 then PInf else NInf)"

fun fmul :: "fval \<Rightarrow> fval \<Rightarrow> fval" where
  "fmul NaN _ = NaN"
| "fmul _ NaN = NaN"
| "fmul (Fin x) (Fin y) = fin (x * y)"
| "fmul (Fin x) PInf = (if x = 0 then NaN else inf_of_sign x)"
| "fmul (Fin x) NInf = (if x = 0 then NaN else inf_of_sign (- x))"
| "fmul PInf (Fin y) = (if y = 0 then NaN else inf_of_sign y)"
| "fmul NInf (Fin y) = (if y = 0 then NaN else inf_of_sign (- y))"
| "fmul PInf PInf = PInf"
| "fmul NInf NInf = PInf"
| "fmul PInf NInf = NInf"
| "fmul NInf PInf = NInf"

fun fdiv :: "fval \<Rightarrow> fval \<Rightarrow> fval" where
  "fdiv NaN _ = NaN"
| "fdiv _ NaN = NaN"
| "fdiv (Fin x) (Fin y) =
     (if y = 0 then (if x = 0 then NaN else inf_of_sign x) else fin (x / y))"
| "fdiv (Fin x) PInf = Fin 0"
| "fdiv (Fin x) NInf = Fin 0"
| "fdiv PInf (Fin y) = (if y \<ge> 0 then PInf else NInf)"
| "fdiv NInf (Fin y) = (if y \<ge> 0 then NInf else PInf)"
| "fdiv PInf _ = NaN"
| "fdiv NInf _ = NaN"

fun fexp :: "fval \<Rightarrow> fval" where
  "fexp (Fin x) = fin (exp x)"
| "fexp PInf = PInf"
| "fexp NInf = Fin 0"
| "fexp NaN = NaN"

fun fsin :: "fval \<Rightarrow> fval" where
  "fsin (Fin x) = Fin (sin x)"
| "fsin _ = NaN"

fun fcos :: "fval \<Rightarrow> fval" where
  "fcos (Fin x) = Fin (cos x)"
| "fcos _ = NaN"

fun fabs :: "fval \<Rightarrow> fval" where
  "fabs (Fin x) = Fin \<bar>x\<bar>"
| "fabs PInf = PInf"
| "fabs NInf = PInf"
| "fabs NaN = NaN"

text \<open>\<open>np.maximum\<close>: NaN propagates.\<close>

fun fmaximum :: "fval \<Rightarrow> fval \<Rightarrow> fval" where
  "fmaximum NaN _ = NaN"
| "fmaximum _ NaN = NaN"
| "fmaximum PInf _ = PInf"
| "fmaximum _ PInf = PInf"
| "fmaximum NInf b = b"
| "fmaximum a NInf = a"
| "fmaximum (Fin x) (Fin y) = Fin (max x y)"

text \<open>\<open>np.nan_to_num\<close> with its default arguments: NaN becomes 0, an infinity becomes
  the finite float of largest magnitude and the same sign.\<close>

fun nan_to_num :: "fval \<Rightarrow> fval" where
  "nan_to_num NaN = Fin 0"
| "nan_to_num PInf = Fin float_max"
| "nan_to_num NInf = Fin (- float_max)"
| "nan_to_num (Fin x) = Fin x"

text \<open>A float that is not negative: a finite one from 0 on, or the positive infinity.\<close>

definition nonneg_or_inf :: "fval \<Rightarrow> bool" where
  "nonneg_or_inf v = (case v of Fin x \<Rightarrow> 0 \<le> x | PInf \<Rightarrow> True | _ \<Rightarrow> False)"

text \<open>\<open>np.radians\<close>.\<close>

definition radians :: "real \<Rightarrow> fval" where
  "radians d = fin (d * pi / 180)"

section \<open>The signal equations (class MRIPhysics)\<close>

text \<open>The functions below are what the array expressions of the source compute at one
  voxel: \<open>t1\<close>, \<open>t2\<close> and \<open>pd\<close> are array elements, the timing parameters are Python
  numbers.\<close>

text \<open>\<open>signal\<close> of \<open>calculate_signal_steady_state\<close>, before \<open>nan_to_num\<close>.\<close>

definition steady_state_signal :: "fval \<Rightarrow> fval \<Rightarrow> fval \<Rightarrow> real \<Rightarrow> real \<Rightarrow> real \<Rightarrow> fval" where
  "steady_state_signal t1 t2 pd tr te fa_deg =
     (let fa_rad = radians fa_deg;
          t1 = fmaximum t1 (Fin (1 / 10 ^ 5));
          t2 = fmaximum t2 (Fin (1 / 10 ^ 5));
          e1 = fexp (fdiv (Fin (- tr)) t1);
          e2 = fexp (fdiv (Fin (- te)) t2);
          numerator = fmul (fmul pd (fsub (Fin 1) e1)) (fsin fa_rad);
          denominator = fsub (Fin 1) (fmul e1 (fcos fa_rad))
      in fmul (fdiv numerator (fadd denominator (Fin (1 / 10 ^ 9)))) e2)"

definition calculate_signal_steady_state ::
  "fval \<Rightarrow> fval \<Rightarrow> fval \<Rightarrow> real \<Rightarrow> real \<Rightarrow> real \<Rightarrow> fval" where
  "calculate_signal_steady_state t1 t2 pd tr te fa_deg =
     nan_to_num (steady_state_signal t1 t2 pd tr te fa_deg)"

definition spin_echo :: "fval \<Rightarrow> fval \<Rightarrow> fval \<Rightarrow> real \<Rightarrow> real \<Rightarrow> real \<Rightarrow> fval" where
  "spin_echo t1 t2 pd tr te fa_deg = calculate_signal_steady_state t1 t2 pd tr te fa_deg"

definition gradient_echo :: "fval \<Rightarrow> fval \<Rightarrow> fval \<Rightarrow> real \<Rightarrow> real \<Rightarrow> real \<Rightarrow> fval" where
  "gradient_echo t1 t2 pd tr te fa_deg = calculate_signal_steady_state t1 t2 pd tr te fa_deg"

text \<open>\<open>mz_ti\<close> and \<open>signal\<close> of \<open>inversion_recovery\<close>, before \<open>nan_to_num\<close>.\<close>

definition mz_ti :: "fval \<Rightarrow> real \<Rightarrow> real \<Rightarrow> fval" where
  "mz_ti t1 tr ti =
     fadd (fsub (Fin 1) (fmul (Fin 2) (fexp (fdiv (Fin (- ti)) t1))))
          (fexp (fdiv (Fin (- tr)) t1))"

definition inversion_recovery_signal ::
  "fval \<Rightarrow> fval \<Rightarrow> fval \<Rightarrow> real \<Rightarrow> real \<Rightarrow> real \<Rightarrow> real \<Rightarrow> fval" where
  "inversion_recovery_signal t1 t2 pd tr te ti fa_deg =
     (let fa_rad = radians fa_deg
      in fabs (fmul (fmul (fmul pd (mz_ti t1 tr ti)) (fsin fa_rad))
                    (fexp (fdiv (Fin (- te)) t2))))"

definition inversion_recovery ::
  "fval \<Rightarrow> fval \<Rightarrow> fval \<Rightarrow> real \<Rightarrow> real \<Rightarrow> real \<Rightarrow> real \<Rightarrow> fval" where
  "inversion_recovery t1 t2 pd tr te ti fa_deg =
     nan_to_num (inversion_recovery_signal t1 t2 pd tr te ti fa_deg)"

section \<open>Volumes and the simulator state (class MRISimulatorModel)\<close>

text \<open>A float64 array of any rank: its shape and its elements in row-major order.\<close>

record ndarray =
  shape :: "nat list"
  data :: "fval list"

definition wf_ndarray :: "ndarray \<Rightarrow> bool" where
  "wf_ndarray a = (length (data a) = prod_list (shape a))"

definition ones_like :: "ndarray \<Rightarrow> ndarray" where
  "ones_like a = \<lparr>shape = shape a, data = replicate (prod_list (shape a)) (Fin 1)\<rparr>"

definition nan_to_num_arr :: "ndarray \<Rightarrow> ndarray" where
  "nan_to_num_arr a = \<lparr>shape = shape a, data = map nan_to_num (data a)\<rparr>"

definition scale_arr :: "real \<Rightarrow> ndarray \<Rightarrow> ndarray" where
  "scale_arr c a = \<lparr>shape = shape a, data = map (\<lambda>x. fmul x (Fin c)) (data a)\<rparr>"

text \<open>\<open>np.max\<close> of an array raises ValueError on an array without elements.\<close>

definition amax :: "ndarray \<Rightarrow> py_error + fval" where
  "amax a = (case data a of [] \<Rightarrow> Inl ValueError | x # xs \<Rightarrow> Inr (foldl fmaximum x xs))"

text \<open>\<open>x < y\<close> on floats: false when an operand is NaN.\<close>

fun fless :: "fval \<Rightarrow> fval \<Rightarrow> bool" where
  "fless NaN _ = False"
| "fless _ NaN = False"
| "fless (Fin x) (Fin y) = (x < y)"
| "fless NInf NInf = False"
| "fless NInf _ = True"
| "fless _ NInf = False"
| "fless PInf _ = False"
| "fless _ PInf = True"

text \<open>The state of the model: the three parameter volumes and the cache of the last
  image and its k-space. The k-space array is complex; its element type \<open>'k\<close> is left
  open, since the transform is numpy's.\<close>

record 'k model_state =
  t1_vol :: "ndarray option"
  t2_vol :: "ndarray option"
  pd_vol :: "ndarray option"
  current_image :: "fval img option"
  k_space :: "'k img option"

definition base_fov :: real where
  "base_fov = 240"

subsection \<open>The synthetic phantom\<close>

text \<open>\<open>np.linspace(-1, 1, n)[i]\<close>.\<close>

definition linspace :: "nat \<Rightarrow> nat \<Rightarrow> real" where
  "linspace n i = (if n \<le> 1 then - 1 else - 1 + real i * (2 / real (n - 1)))"

text \<open>The triple \<open>(t1, t2, pd)\<close> that \<open>generate_synthetic_phantom\<close> writes at voxel
  \<open>(i, j, z)\<close>: \<open>x\<close> runs along the second axis and \<open>y\<close> along the first; the later masks
  overwrite the earlier ones.\<close>

definition phantom_voxel :: "nat \<times> nat \<times> nat \<Rightarrow> nat \<Rightarrow> nat \<Rightarrow> nat \<Rightarrow> real \<times> real \<times> real" where
  "phantom_voxel dm i j z =
     (case dm of (d0, d1, d2) \<Rightarrow>
        let x = linspace d1 j; y = linspace d0 i;
            mask_ventricle = (\<bar>x\<bar> < 2 / 10 \<and> \<bar>y\<bar> < 4 / 10);
            scale0 = 1 - real_of_int \<bar>int z - int (d2 div 2)\<bar> * (5 / 100);
            scale = (if scale0 < 0 then 0 else scale0);
            current_mask_brain = (x\<^sup>2 + y\<^sup>2 < 85 / 100 * scale);
            current_mask_vent = (mask_ventricle \<and> x\<^sup>2 + y\<^sup>2 < 85 / 100 * scale);
            mask_gray = (current_mask_brain \<and> x\<^sup>2 + y\<^sup>2 > 5 / 10 * scale)
        in if current_mask_vent then (3000, 2000, 1)
           else if mask_gray then (950, 100, 85 / 100)
           else if current_mask_brain then (600, 70, 70 / 100)
           else (0, 0, 0))"

definition phantom_map :: "nat \<times> nat \<times> nat \<Rightarrow> (real \<times> real \<times> real \<Rightarrow> real) \<Rightarrow> ndarray" where
  "phantom_map dm sel =
     (case dm of (d0, d1, d2) \<Rightarrow>
        \<lparr>shape = [d0, d1, d2],
         data = concat (map (\<lambda>i. concat (map (\<lambda>j. map (\<lambda>z. Fin (sel (phantom_voxel dm i j z)))
                    [0..<d2]) [0..<d1])) [0..<d0])\<rparr>)"

definition generate_synthetic_phantom :: "nat \<times> nat \<times> nat \<Rightarrow> ndarray \<times> ndarray \<times> ndarray" where
  "generate_synthetic_phantom dm =
     (phantom_map dm fst, phantom_map dm (fst \<circ> snd), phantom_map dm (snd \<circ> snd))"

definition load_default_phantom :: "'k model_state \<Rightarrow> 'k model_state" where
  "load_default_phantom st =
     (case generate_synthetic_phantom (128, 128, 20) of
        (t1, t2, pd) \<Rightarrow> st\<lparr>t1_vol := Some t1, t2_vol := Some t2, pd_vol := Some pd\<rparr>)"

text \<open>The constructor: no volume, no cache, then the default phantom.\<close>

definition no_volume :: "'k model_state" where
  "no_volume =
     \<lparr>t1_vol = None, t2_vol = None, pd_vol = None, current_image = None, k_space = None\<rparr>"


subsection \<open>Dimension queries\<close>

text \<open>\<open>shape[i]\<close> raises IndexError beyond the rank of the array.\<close>

definition shape_at :: "ndarray \<Rightarrow> nat \<Rightarrow> py_error + nat" where
  "shape_at a i = (if i < length (shape a) then Inr (shape a ! i) else Inl IndexError)"

definition get_max_slice :: "'k model_state \<Rightarrow> string \<Rightarrow> py_error + nat" where
  "get_max_slice st plane =
     (case t1_vol st of
        None \<Rightarrow> Inr 0
      | Some v \<Rightarrow>
          if plane = ''coronal'' then shape_at v 0
          else if plane = ''sagittal'' then shape_at v 1
          else shape_at v 2)"

subsection \<open>Loading a .mat file\<close>

text \<open>What \<open>scipy.io.loadmat\<close> returns under one key: a numeric array, a 1-by-1 struct
  array with named fields (MRiLab's \<open>VObj\<close>), or anything else (a string, a cell array, the
  metadata entries), whose conversion to a float64 array raises.\<close>

datatype matval = MatArray ndarray | MatStruct "(string \<times> matval) list" | MatOther

type_synonym mat = "(string \<times> matval) list"

datatype load_msg = Loaded | NoT1T2 | Raised py_error

text \<open>\<open>np.array(v, dtype=np.float64)\<close> and \<open>v.astype(np.float64)\<close>.\<close>

definition to_float64 :: "matval \<Rightarrow> py_error + ndarray" where
  "to_float64 v = (case v of MatArray a \<Rightarrow> Inr a | _ \<Rightarrow> Inl ValueError)"

text \<open>\<open>vobj[name][0][0]\<close> as a float64 array, and \<open>name in vobj.dtype.names\<close>.\<close>

definition field_f64 :: "matval \<Rightarrow> string \<Rightarrow> py_error + ndarray" where
  "field_f64 vobj name =
     (case vobj of
        MatStruct fs \<Rightarrow> (case map_of fs name of None \<Rightarrow> Inl ValueError | Some v \<Rightarrow> to_float64 v)
      | _ \<Rightarrow> Inl IndexError)"

definition has_field :: "matval \<Rightarrow> string \<Rightarrow> bool" where
  "has_field vobj name = (case vobj of MatStruct fs \<Rightarrow> map_of fs name \<noteq> None | _ \<Rightarrow> False)"

text \<open>\<open>str.lower\<close> on the ASCII letters.\<close>

definition lower_char :: "char \<Rightarrow> char" where
  "lower_char c =
     (case map_of (zip ''ABCDEFGHIJKLMNOPQRSTUVWXYZ'' ''abcdefghijklmnopqrstuvwxyz'') c of
        Some d \<Rightarrow> d
      | None \<Rightarrow> c)"

definition lower :: "string \<Rightarrow> string" where
  "lower k = map lower_char k"

text \<open>\<open>next((k for k in keys if k.lower() in aliases), None)\<close>.\<close>

definition find_key :: "mat \<Rightarrow> string list \<Rightarrow> string option" where
  "find_key m aliases = find (\<lambda>k. lower k \<in> set aliases) (map fst m)"

text \<open>The inner \<open>try\<close> of \<open>load_mat_file\<close>: each field is assigned as soon as its value is
  computed, and an exception is swallowed with what was assigned so far. The result is the
  state and \<open>found\<close>.\<close>

definition load_vobj :: "'k model_state \<Rightarrow> matval \<Rightarrow> 'k model_state \<times> bool" where
  "load_vobj st vobj =
     (case field_f64 vobj ''T1'' of
        Inl _ \<Rightarrow> (st, False)
      | Inr a1 \<Rightarrow>
          let st1 = st\<lparr>t1_vol := Some a1\<rparr> in
          (case field_f64 vobj ''T2'' of
             Inl _ \<Rightarrow> (st1, False)
           | Inr a2 \<Rightarrow>
               let st2 = st1\<lparr>t2_vol := Some a2\<rparr> in
               if has_field vobj ''Rho'' then
                 (case field_f64 vobj ''Rho'' of
                    Inl _ \<Rightarrow> (st2, False)
                  | Inr p \<Rightarrow> (st2\<lparr>pd_vol := Some p\<rparr>, True))
               else if has_field vobj ''PD'' then
                 (case field_f64 vobj ''PD'' of
                    Inl _ \<Rightarrow> (st2, False)
                  | Inr p \<Rightarrow> (st2\<lparr>pd_vol := Some p\<rparr>, True))
               else (st2\<lparr>pd_vol := Some (ones_like a1)\<rparr>, True)))"

text \<open>\<open>mat[key].astype(np.float64)\<close>.\<close>

definition lookup_f64 :: "mat \<Rightarrow> string \<Rightarrow> py_error + ndarray" where
  "lookup_f64 m k = (case map_of m k of None \<Rightarrow> Inl KeyError | Some v \<Rightarrow> to_float64 v)"

text \<open>The truth value of \<open>next(..., None)\<close>: a key that is not the empty string.\<close>

definition key_truthy :: "string option \<Rightarrow> bool" where
  "key_truthy k = (case k of None \<Rightarrow> False | Some s \<Rightarrow> s \<noteq> [])"

text \<open>The flat schema. An exception here goes to the outer handler, with the state as
  assigned so far.\<close>

definition load_flat :: "'k model_state \<Rightarrow> mat \<Rightarrow> (py_error \<times> 'k model_state) + ('k model_state \<times> bool)" where
  "load_flat st m =
     (let t1_key = find_key m [''t1'', ''t1_map''];
          t2_key = find_key m [''t2'', ''t2_map''];
          pd_key = find_key m [''rho'', ''pd'', ''pd_map'']
      in if key_truthy t1_key \<and> key_truthy t2_key then
           (case lookup_f64 m (the t1_key) of
              Inl e \<Rightarrow> Inl (e, st)
            | Inr a1 \<Rightarrow>
                let st1 = st\<lparr>t1_vol := Some a1\<rparr> in
                (case lookup_f64 m (the t2_key) of
                   Inl e \<Rightarrow> Inl (e, st1)
                 | Inr a2 \<Rightarrow>
                     let st2 = st1\<lparr>t2_vol := Some a2\<rparr> in
                     if key_truthy pd_key then
                       (case lookup_f64 m (the pd_key) of
                          Inl e \<Rightarrow> Inl (e, st2)
                        | Inr p \<Rightarrow> Inr (st2\<lparr>pd_vol := Some p\<rparr>, True))
                     else Inr (st2\<lparr>pd_vol := Some (ones_like a1)\<rparr>, True)))
         else Inr (st, False))"

text \<open>The cleaning and the unit correction after a successful parse; \<open>np.max\<close> may
  raise, after the three volumes have been assigned.\<close>

definition finish_load :: "'k model_state \<Rightarrow> (bool \<times> load_msg) \<times> 'k model_state" where
  "finish_load st =
     (let st1 = st\<lparr>t1_vol := map_option nan_to_num_arr (t1_vol st),
                     t2_vol := map_option nan_to_num_arr (t2_vol st),
                     pd_vol := map_option nan_to_num_arr (pd_vol st)\<rparr>
      in case t1_vol st1 of
           None \<Rightarrow> ((False, Raised TypeError), st1)
         | Some a1 \<Rightarrow>
             (case amax a1 of
                Inl e \<Rightarrow> ((False, Raised e), st1)
              | Inr mx \<Rightarrow>
                  if fless mx (Fin 10)
                  then ((True, Loaded),
                        st1\<lparr>t1_vol := map_option (scale_arr 1000) (t1_vol st1),
                            t2_vol := map_option (scale_arr 1000) (t2_vol st1)\<rparr>)
                  else ((True, Loaded), st1)))"

text \<open>\<open>load_mat_file\<close>. Reading the file is outside the model: the argument is what
  \<open>scipy.io.loadmat(fname)\<close> gives, an exception or the dictionary of the file.\<close>

definition load_mat_file ::
  "'k model_state \<Rightarrow> py_error + mat \<Rightarrow> (bool \<times> load_msg) \<times> 'k model_state" where
  "load_mat_file st loaded =
     (case loaded of
        Inl e \<Rightarrow> ((False, Raised e), st)
      | Inr m \<Rightarrow>
          (case (case map_of m ''VObj'' of
                   Some vobj \<Rightarrow> load_vobj st vobj
                 | None \<Rightarrow> (st, False)) of
             (st1, found) \<Rightarrow>
               (case (if \<not> found then load_flat st1 m else Inr (st1, True)) of
                  Inl (e, st2) \<Rightarrow> ((False, Raised e), st2)
                | Inr (st2, found2) \<Rightarrow>
                    if found2 then finish_load st2 else ((False, NoT1T2), st2))))"

section \<open>The imaging pipeline (calculate\_image)\<close>

text \<open>Sequencing of computations that may raise.\<close>

definition bind_err :: "'e + 'a \<Rightarrow> ('a \<Rightarrow> 'e + 'b) \<Rightarrow> 'e + 'b" where
  "bind_err x f = (case x of Inl e \<Rightarrow> Inl e | Inr a \<Rightarrow> f a)"

text \<open>Python's \<open>sub in s\<close> on strings.\<close>

definition contains :: "string \<Rightarrow> string \<Rightarrow> bool" where
  "contains sub s = list_ex (\<lambda>i. take (length sub) (drop i s) = sub) [0..<Suc (length s)]"

text \<open>\<open>int(x)\<close> on a finite float: truncation toward zero.\<close>

definition int_trunc :: "real \<Rightarrow> int" where
  "int_trunc x = (if x \<ge> 0 then \<lfloor>x\<rfloor> else \<lceil>x\<rceil>)"

subsection \<open>Reslicing\<close>

text \<open>The element \<open>v[i, j, k]\<close> of a rank-3 array with dimensions \<open>d1\<close> and \<open>d2\<close> along its
  last two axes.\<close>

definition at3 :: "ndarray \<Rightarrow> nat \<Rightarrow> nat \<Rightarrow> nat \<Rightarrow> nat \<Rightarrow> nat \<Rightarrow> fval" where
  "at3 v d1 d2 i j k = data v ! ((i * d1 + j) * d2 + k)"

text \<open>The three dimensions of a volume used as a rank-3 array. On an array of lower rank
  the indexing of the source raises IndexError; on one of higher rank the slab is not 2-D
  and a later step raises (modelled as ValueError at this point).\<close>

definition dims3 :: "ndarray \<Rightarrow> py_error + (nat \<times> nat \<times> nat)" where
  "dims3 v =
     (case shape v of
        [d0, d1, d2] \<Rightarrow> Inr (d0, d1, d2)
      | _ \<Rightarrow> if length (shape v) < 3 then Inl IndexError else Inl ValueError)"

text \<open>\<open>v[:, z, :]\<close>, \<open>v[z, :, :]\<close> and \<open>np.mean(v[:, :, zs:ze], axis=2)\<close>; the index \<open>z\<close>
  is not negative here.\<close>

definition slice_axis1 :: "ndarray \<Rightarrow> nat \<Rightarrow> py_error + fval img" where
  "slice_axis1 v z =
     bind_err (dims3 v) (\<lambda>(d0, d1, d2).
       if z < d1
       then Inr \<lparr>nrows = d0, ncols = d2,
                 rows = map (\<lambda>i. map (\<lambda>k. at3 v d1 d2 i z k) [0..<d2]) [0..<d0]\<rparr>
       else Inl IndexError)"

definition slice_axis0 :: "ndarray \<Rightarrow> nat \<Rightarrow> py_error + fval img" where
  "slice_axis0 v z =
     bind_err (dims3 v) (\<lambda>(d0, d1, d2).
       if z < d0
       then Inr \<lparr>nrows = d1, ncols = d2,
                 rows = map (\<lambda>j. map (\<lambda>k. at3 v d1 d2 z j k) [0..<d2]) [0..<d1]\<rparr>
       else Inl IndexError)"

text \<open>\<open>np.mean\<close> of a list of floats; of no elements it is NaN.\<close>

definition fmean :: "fval list \<Rightarrow> fval" where
  "fmean xs = fdiv (foldl fadd (Fin 0) xs) (Fin (real (length xs)))"

definition mean_axis2 :: "ndarray \<Rightarrow> int \<Rightarrow> int \<Rightarrow> py_error + fval img" where
  "mean_axis2 v zs ze =
     bind_err (dims3 v) (\<lambda>(d0, d1, d2).
       Inr \<lparr>nrows = d0, ncols = d1,
            rows = map (\<lambda>i. map (\<lambda>j. fmean (py_slice zs ze (map (\<lambda>k. at3 v d1 d2 i j k) [0..<d2])))
                     [0..<d1]) [0..<d0]\<rparr>)"

text \<open>\<open>a.T\<close>, \<open>np.flipud\<close> and \<open>np.rot90(a, k=1)\<close> on a 2-D array.\<close>

definition transpose_img :: "'a img \<Rightarrow> 'a img" where
  "transpose_img m =
     \<lparr>nrows = ncols m, ncols = nrows m,
      rows = map (\<lambda>j. map (\<lambda>r. r ! j) (rows m)) [0..<ncols m]\<rparr>"

definition flipud :: "'a img \<Rightarrow> 'a img" where
  "flipud m = m\<lparr>rows := rev (rows m)\<rparr>"

definition rot90 :: "'a img \<Rightarrow> 'a img" where
  "rot90 m = flipud (transpose_img m)"

text \<open>A volume that is not \<open>None\<close>.\<close>

definition the_vol :: "ndarray option \<Rightarrow> py_error + ndarray" where
  "the_vol v = (case v of None \<Rightarrow> Inl TypeError | Some a \<Rightarrow> Inr a)"

subsection \<open>Elementwise signal computation with broadcasting\<close>

text \<open>numpy broadcasting of one dimension of two operands, and of three.\<close>

definition bdim :: "nat \<Rightarrow> nat \<Rightarrow> nat option" where
  "bdim a b = (if a = b then Some a else if a = 1 then Some b else if b = 1 then Some a else None)"

definition bdim3 :: "nat \<Rightarrow> nat \<Rightarrow> nat \<Rightarrow> nat option" where
  "bdim3 a b c = (case bdim a b of None \<Rightarrow> None | Some ab \<Rightarrow> bdim ab c)"

definition pix :: "'a img \<Rightarrow> nat \<Rightarrow> nat \<Rightarrow> 'a" where
  "pix m i j = rows m ! (if nrows m = 1 then 0 else i) ! (if ncols m = 1 then 0 else j)"

definition broadcast3 ::
  "(fval \<Rightarrow> fval \<Rightarrow> fval \<Rightarrow> fval) \<Rightarrow> fval img \<Rightarrow> fval img \<Rightarrow> fval img \<Rightarrow> py_error + fval img" where
  "broadcast3 f a b c =
     (case (bdim3 (nrows a) (nrows b) (nrows c), bdim3 (ncols a) (ncols b) (ncols c)) of
        (Some h, Some w) \<Rightarrow>
          Inr \<lparr>nrows = h, ncols = w,
               rows = map (\<lambda>i. map (\<lambda>j. f (pix a i j) (pix b i j) (pix c i j)) [0..<w]) [0..<h]\<rparr>
      | _ \<Rightarrow> Inl ValueError)"

text \<open>The EPI branch at one voxel: the gradient-echo signal times the decay
  \<open>exp(-esp / (t2 + 1e-5))\<close>, in absolute value.\<close>

definition epi_signal :: "fval \<Rightarrow> fval \<Rightarrow> fval \<Rightarrow> real \<Rightarrow> real \<Rightarrow> real \<Rightarrow> real \<Rightarrow> fval" where
  "epi_signal t1 t2 pd tr te fa esp =
     (let base = gradient_echo t1 t2 pd tr te fa;
          decay = fexp (fdiv (Fin (- esp)) (fadd t2 (Fin (1 / 10 ^ 5))))
      in fabs (fmul base decay))"

subsection \<open>Library functions and scalar arithmetic\<close>

text \<open>The functions of scipy and numpy that the pipeline calls are parameters of the
  model: \<open>scipy.ndimage.zoom(img, (zh, zw), order=1)\<close>,
  \<open>scipy.ndimage.rotate(img, angle, reshape=False, order=1, mode='constant')\<close>,
  \<open>scipy.ndimage.gaussian_filter1d(img, sigma, axis=0)\<close> and \<open>np.fft.fft2\<close>, whose result
  has elements of a type \<open>'k\<close> of complex floats. Each may raise.

  The geometry of the image takes \<open>int(...)\<close> of products of Python floats, which depends
  on how each product is rounded; so the rounding of scalar float arithmetic is a
  parameter too: \<open>fround x\<close> is the float that an operation with exact result \<open>x\<close> gives,
  an infinity on overflow.\<close>

record 'k lib =
  zoom :: "fval img \<Rightarrow> fval \<Rightarrow> fval \<Rightarrow> py_error + fval img"
  rotate :: "fval img \<Rightarrow> real \<Rightarrow> py_error + fval img"
  gaussian_filter1d :: "fval img \<Rightarrow> fval \<Rightarrow> py_error + fval img"
  fft2 :: "fval img \<Rightarrow> py_error + 'k img"
  fround :: "real \<Rightarrow> fval"

text \<open>The conversion of a Python integer to a float, as in \<open>n * 0.5\<close>: rounded to 53 bits,
  OverflowError when that is \<open>2 ^ 1024\<close> or more.\<close>

definition int_to_float :: "int \<Rightarrow> py_error + real" where
  "int_to_float n =
     (let m = round53 (nat \<bar>n\<bar>)
      in if m \<ge> 2 ^ float_max_exp then Inl OverflowError
         else Inr (real_of_int (sgn n) * real m))"

text \<open>The product of two Python floats, and the quotient of two Python integers (true
  division, the divisor positive and the dividend in float range).\<close>

definition rmul :: "'k lib \<Rightarrow> fval \<Rightarrow> fval \<Rightarrow> fval" where
  "rmul lb a b = (case (a, b) of (Fin x, Fin y) \<Rightarrow> fround lb (x * y) | _ \<Rightarrow> fmul a b)"

definition int_truediv :: "'k lib \<Rightarrow> int \<Rightarrow> nat \<Rightarrow> fval" where
  "int_truediv lb a n = fround lb (real_of_int a / real n)"

text \<open>\<open>int(x)\<close> on a Python float: OverflowError on an infinity, ValueError on NaN,
  truncation toward zero otherwise.\<close>

definition py_int :: "fval \<Rightarrow> py_error + int" where
  "py_int x =
     (case x of Fin r \<Rightarrow> Inr (int_trunc r) | NaN \<Rightarrow> Inl ValueError | _ \<Rightarrow> Inl OverflowError)"

text \<open>\<open>np.fft.fftshift\<close> moves the zero frequency to the centre: along each axis of
  length \<open>n\<close> the element at \<open>i\<close> goes to \<open>(i + n // 2) mod n\<close>.\<close>

definition shift_list :: "'a list \<Rightarrow> 'a list" where
  "shift_list xs = (let n = length xs in drop (n - n div 2) xs @ take (n - n div 2) xs)"

definition fftshift :: "'a img \<Rightarrow> 'a img" where
  "fftshift m = m\<lparr>rows := shift_list (map shift_list (rows m))\<rparr>"

subsection \<open>The stages of calculate\_image\<close>

text \<open>Stage 1: the slab of each of the three volumes, by the plane.\<close>

definition extract_slab ::
  "'k model_state \<Rightarrow> ndarray \<Rightarrow> string \<Rightarrow> int \<Rightarrow> int
     \<Rightarrow> py_error + (fval img \<times> fval img \<times> fval img)" where
  "extract_slab st t1v view_plane slice_idx thickness =
     (if view_plane \<noteq> ''axial'' then
        (if view_plane = ''sagittal'' then
           bind_err (shape_at t1v 1) (\<lambda>max_slice.
             let z_center = nat (max 0 (min slice_idx (int max_slice - 1))) in
             bind_err (slice_axis1 t1v z_center) (\<lambda>t1_s.
             bind_err (the_vol (t2_vol st)) (\<lambda>t2v.
             bind_err (slice_axis1 t2v z_center) (\<lambda>t2_s.
             bind_err (the_vol (pd_vol st)) (\<lambda>pdv.
             bind_err (slice_axis1 pdv z_center) (\<lambda>pd_s.
               Inr (flipud (transpose_img t1_s), flipud (transpose_img t2_s),
                    flipud (transpose_img pd_s))))))))
         else
           bind_err (shape_at t1v 0) (\<lambda>max_slice.
             let z_center = nat (max 0 (min slice_idx (int max_slice - 1))) in
             bind_err (slice_axis0 t1v z_center) (\<lambda>t1_s.
             bind_err (the_vol (t2_vol st)) (\<lambda>t2v.
             bind_err (slice_axis0 t2v z_center) (\<lambda>t2_s.
             bind_err (the_vol (pd_vol st)) (\<lambda>pdv.
             bind_err (slice_axis0 pdv z_center) (\<lambda>pd_s.
               Inr (flipud (transpose_img t1_s), flipud (transpose_img t2_s),
                    flipud (transpose_img pd_s)))))))))
      else
        bind_err (shape_at t1v 2) (\<lambda>max_slice.
        bind_err (axial_window (int max_slice) slice_idx thickness) (\<lambda>(z_center, z_start, z_end).
        bind_err (mean_axis2 t1v z_start z_end) (\<lambda>t1_s.
        bind_err (the_vol (t2_vol st)) (\<lambda>t2v.
        bind_err (mean_axis2 t2v z_start z_end) (\<lambda>t2_s.
        bind_err (the_vol (pd_vol st)) (\<lambda>pdv.
        bind_err (mean_axis2 pdv z_start z_end) (\<lambda>pd_s.
          Inr (t1_s, t2_s, pd_s)))))))))"

text \<open>Stage 2: the pulse-sequence formula, chosen by substrings of the sequence name.\<close>

definition apply_sequence ::
  "'k lib \<Rightarrow> string \<Rightarrow> real \<Rightarrow> real \<Rightarrow> real \<Rightarrow> real \<Rightarrow> int \<Rightarrow> real
     \<Rightarrow> fval img \<Rightarrow> fval img \<Rightarrow> fval img \<Rightarrow> py_error + fval img" where
  "apply_sequence lb seq_type tr te ti fa etl esp t1_s t2_s pd_s =
     (if contains ''FLAIR'' seq_type then
        broadcast3 (\<lambda>t1 t2 pd. inversion_recovery t1 t2 pd tr te ti fa) t1_s t2_s pd_s
      else if contains ''EPI'' seq_type then
        broadcast3 (\<lambda>t1 t2 pd. epi_signal t1 t2 pd tr te fa esp) t1_s t2_s pd_s
      else if contains ''FSE'' seq_type then
        bind_err (broadcast3 (\<lambda>t1 t2 pd. spin_echo t1 t2 pd tr te fa) t1_s t2_s pd_s) (\<lambda>img.
          if etl > 1
          then bind_err (int_to_float etl) (\<lambda>e.
                 let blur_sigma = rmul lb (rmul lb (Fin e) (Fin esp)) (Fin (2 / 100))
                 in gaussian_filter1d lb img blur_sigma)
          else Inr img)
      else
        broadcast3 (\<lambda>t1 t2 pd. spin_echo t1 t2 pd tr te fa) t1_s t2_s pd_s)"

text \<open>Stage 3: scaling to the field of view, rotation, crop or pad. The field of view is
  a Python float, the matrix size, the thickness and the gap are Python integers.
  \<open>matrix_size / fov\<close> converts the integer (OverflowError from \<open>2 ^ 1024\<close> on) and then
  raises ZeroDivisionError on a zero divisor; an integer field of view gives the same
  quotient and the same ZeroDivisionError while the matrix size is below \<open>2 ^ 53\<close>. The
  height of a resliced plane is an exact integer until it is multiplied by the pixel
  density; \<open>int\<close> of a product raises OverflowError on an infinity and ValueError on NaN.\<close>

definition target_sizes ::
  "'k lib \<Rightarrow> bool \<Rightarrow> nat \<Rightarrow> real \<Rightarrow> int \<Rightarrow> int \<Rightarrow> int \<Rightarrow> py_error + (int \<times> int)" where
  "target_sizes lb is_mpr h fov thickness gap matrix_size =
     bind_err (int_to_float matrix_size) (\<lambda>m.
       if fov = 0 then Inl ZeroDivisionError
       else
         let pixels_per_mm = fround lb (m / fov) in
         bind_err (if is_mpr
                   then bind_err (int_to_float (int h * (thickness + gap))) (\<lambda>src_phys_h.
                          Inr (rmul lb (Fin src_phys_h) pixels_per_mm))
                   else Inr (rmul lb (Fin base_fov) pixels_per_mm)) (\<lambda>ph.
         bind_err (py_int ph) (\<lambda>target_h.
         bind_err (py_int (rmul lb (Fin base_fov) pixels_per_mm)) (\<lambda>target_w.
           Inr (target_h, target_w)))))"

definition resample ::
  "'k lib \<Rightarrow> bool \<Rightarrow> fval img \<Rightarrow> real \<Rightarrow> int \<Rightarrow> int \<Rightarrow> int \<Rightarrow> real \<Rightarrow> py_error + fval img" where
  "resample lb is_mpr img fov thickness gap matrix_size rotation =
     bind_err (target_sizes lb is_mpr (nrows img) fov thickness gap matrix_size)
       (\<lambda>(target_h, target_w).
     bind_err
       (if nrows img > 0 \<and> ncols img > 0
        then (if is_mpr
              then zoom lb img (int_truediv lb target_h (nrows img))
                     (int_truediv lb target_w (ncols img))
              else (let scale = int_truediv lb target_w (ncols img)
                    in zoom lb img scale scale))
        else Inr img)
       (\<lambda>img_res.
     bind_err (if rotation \<noteq> 0 then rotate lb img_res rotation else Inr img_res)
       (\<lambda>img_res.
       let final_img = crop_or_pad img_res matrix_size
       in Inr (if is_mpr then rot90 final_img else final_img))))"

text \<open>The slab, the signal and the resampling together: the image that
  \<open>calculate_image\<close> is about to cache.\<close>

definition form_image ::
  "'k lib \<Rightarrow> 'k model_state \<Rightarrow> ndarray \<Rightarrow> string \<Rightarrow> real \<Rightarrow> real \<Rightarrow> real \<Rightarrow> real \<Rightarrow> int \<Rightarrow> int
     \<Rightarrow> real \<Rightarrow> real \<Rightarrow> int \<Rightarrow> int \<Rightarrow> int \<Rightarrow> real \<Rightarrow> string \<Rightarrow> py_error + fval img" where
  "form_image lb st t1v seq_type tr te ti fa slice_idx etl esp fov thickness gap matrix_size
       rotation view_plane =
     (let is_mpr = (view_plane \<noteq> ''axial'') in
      bind_err (extract_slab st t1v view_plane slice_idx thickness) (\<lambda>(t1_s, t2_s, pd_s).
      bind_err (apply_sequence lb seq_type tr te ti fa etl esp t1_s t2_s pd_s) (\<lambda>img.
        resample lb is_mpr img fov thickness gap matrix_size rotation)))"

text \<open>Stage 4: the cache. \<open>current_image\<close> is assigned before the transform is computed,
  so an exception of the transform leaves the new image with the old k-space; an exception
  of an earlier stage leaves the state as it was.\<close>

definition cache_image ::
  "'k lib \<Rightarrow> 'k model_state \<Rightarrow> py_error + fval img
     \<Rightarrow> (py_error \<times> 'k model_state) + (fval img option \<times> 'k model_state)" where
  "cache_image lb st r =
     (case r of
        Inl e \<Rightarrow> Inl (e, st)
      | Inr final_img \<Rightarrow>
          let st1 = st\<lparr>current_image := Some final_img\<rparr> in
          (case fft2 lb final_img of
             Inl e \<Rightarrow> Inl (e, st1)
           | Inr f \<Rightarrow> Inr (Some final_img, st1\<lparr>k_space := Some (fftshift f)\<rparr>)))"

text \<open>\<open>calculate_image\<close>: the returned image (\<open>None\<close> without a volume) with the new
  state, or the exception with the state it leaves.\<close>

definition calculate_image ::
  "'k lib \<Rightarrow> 'k model_state \<Rightarrow> string \<Rightarrow> real \<Rightarrow> real \<Rightarrow> real \<Rightarrow> real \<Rightarrow> int \<Rightarrow> int \<Rightarrow> real
     \<Rightarrow> real \<Rightarrow> int \<Rightarrow> int \<Rightarrow> int \<Rightarrow> real \<Rightarrow> string
     \<Rightarrow> (py_error \<times> 'k model_state) + (fval img option \<times> 'k model_state)" where
  "calculate_image lb st seq_type tr te ti fa slice_idx etl esp fov thickness gap matrix_size
       rotation view_plane =
     (case t1_vol st of
        None \<Rightarrow> Inr (None, st)
      | Some t1v \<Rightarrow>
          cache_image lb st
            (form_image lb st t1v seq_type tr te ti fa slice_idx etl esp fov thickness gap
               matrix_size rotation view_plane))"

subsection \<open>A stand-in for the library\<close>

text \<open>A simple instance of the parameters, for running the pipeline on concrete inputs:
  zoom by nearest neighbour to the shape scipy gives (each extent times its factor,
  rounded), rotation and blur that return their argument, the discrete Fourier transform
  of a 2 by 2 image (its coefficients are the four sums and differences, all real; an
  image of another shape is returned as it is), and scalar arithmetic that is exact inside
  the float range.\<close>

definition nn_zoom :: "fval img \<Rightarrow> fval \<Rightarrow> fval \<Rightarrow> py_error + fval img" where
  "nn_zoom m zh zw =
     (case (zh, zw) of
        (Fin a, Fin b) \<Rightarrow>
          let h = nat (round (real (nrows m) * a)); w = nat (round (real (ncols m) * b))
          in Inr \<lparr>nrows = h, ncols = w,
                    rows = map (\<lambda>i. map (\<lambda>j. rows m ! min (nrows m - 1) (nat \<lfloor>real i / a\<rfloor>)
                                                   ! min (ncols m - 1) (nat \<lfloor>real j / b\<rfloor>))
                             [0..<w]) [0..<h]\<rparr>
      | _ \<Rightarrow> Inl ValueError)"

definition dft2 :: "fval img \<Rightarrow> py_error + fval img" where
  "dft2 m =
     (case rows m of
        [[a, b], [c, d]] \<Rightarrow>
          Inr \<lparr>nrows = 2, ncols = 2,
               rows = [[fadd (fadd a b) (fadd c d), fadd (fsub a b) (fsub c d)],
                       [fsub (fadd a b) (fadd c d), fsub (fsub a b) (fsub c d)]]\<rparr>
      | _ \<Rightarrow> Inr m)"

definition test_lib :: "fval lib" where
  "test_lib = \<lparr>zoom = nn_zoom, rotate = (\<lambda>m a. Inr m), gaussian_filter1d = (\<lambda>m s. Inr m),
               fft2 = dft2, fround = fin\<rparr>"

text \<open>A model holding a volume of a single voxel of white matter: T1 = 600, T2 = 70,
  PD = 0.7.\<close>

definition one_voxel :: "fval model_state" where
  "one_voxel =
     no_volume\<lparr>t1_vol := Some \<lparr>shape = [1, 1, 1], data = [Fin 600]\<rparr>,
               t2_vol := Some \<lparr>shape = [1, 1, 1], data = [Fin 70]\<rparr>,
               pd_vol := Some \<lparr>shape = [1, 1, 1], data = [Fin (7 / 10)]\<rparr>\<rparr>"

declare bit_length.simps [simp del]

section \<open>Properties of \<open>crop_or_pad\<close>\<close>

lemma py_slice_length:
  "0 \<le> a \<Longrightarrow> 0 \<le> s \<Longrightarrow> a + s \<le> int (length xs) \<Longrightarrow> length (py_slice a (a + s) xs) = nat s"
  by (auto simp: py_slice_def py_bound_def Let_def min_def nat_add_distrib)

lemma py_bound_diff:
  "0 \<le> a \<Longrightarrow> 0 \<le> s \<Longrightarrow> a + s \<le> int n \<Longrightarrow> py_bound (a + s) n - py_bound a n = nat s"
  by (auto simp: py_bound_def min_def nat_add_distrib)

lemma crop_or_pad_shape:
  assumes "length (rows m) = nrows m" "0 \<le> ts"
  shows "nrows (crop_or_pad m ts) = nat ts \<and> ncols (crop_or_pad m ts) = nat ts"
proof -
  have r1: "int (nrows m) - ts \<ge> 0 \<Longrightarrow>
      length (py_slice ((int (nrows m) - ts) div 2) ((int (nrows m) - ts) div 2 + ts) (rows m)) = nat ts"
    using assms by (intro py_slice_length) auto
  have c1: "int (ncols m) - ts \<ge> 0 \<Longrightarrow>
      py_bound ((int (ncols m) - ts) div 2 + ts) (ncols m) - py_bound ((int (ncols m) - ts) div 2) (ncols m) = nat ts"
    using assms by (intro py_bound_diff) auto
  show ?thesis
    using assms r1 c1
    by (auto simp: crop_or_pad_def Let_def slice_rows_def slice_cols_def pad_rows_def pad_cols_def)
qed

lemma crop_or_pad_noop: "int (nrows m) = ts \<Longrightarrow> int (ncols m) = ts \<Longrightarrow> crop_or_pad m ts = m"
  by (simp add: crop_or_pad_def)

text \<open>Claim C2. \<open>crop_or_pad\<close> is idempotent: for a 2-D array and a positive target size,
  applying it twice with the same size gives what applying it once gives; and an array that
  already is \<open>size \<times> size\<close> is returned unchanged.\<close>

theorem crop_or_pad_idempotent:
  assumes "wf_img m" "0 < ts"
  shows "crop_or_pad (crop_or_pad m ts) ts = crop_or_pad m ts
       \<and> (nrows m = nat ts \<and> ncols m = nat ts \<longrightarrow> crop_or_pad m ts = m)"
proof -
  have "length (rows m) = nrows m" using assms by (simp add: wf_img_def)
  then have "nrows (crop_or_pad m ts) = nat ts \<and> ncols (crop_or_pad m ts) = nat ts"
    using assms crop_or_pad_shape[of m ts] by simp
  then have "crop_or_pad (crop_or_pad m ts) ts = crop_or_pad m ts"
    using assms by (intro crop_or_pad_noop) auto
  moreover have "nrows m = nat ts \<and> ncols m = nat ts \<longrightarrow> crop_or_pad m ts = m"
    using assms by (auto intro: crop_or_pad_noop)
  ultimately show ?thesis by simp
qed

theorem crop_or_pad_idempotent_witness:
  "wf_img \<lparr>nrows = 1, ncols = 3, rows = [[1, 2, 3 :: int]]\<rparr> \<and> (0::int) < 2
   \<and> crop_or_pad (crop_or_pad \<lparr>nrows = 1, ncols = 3, rows = [[1, 2, 3 :: int]]\<rparr> 2) 2
       = \<lparr>nrows = 2, ncols = 2, rows = [[1, 2], [0, 0]]\<rparr>
   \<and> crop_or_pad \<lparr>nrows = 2, ncols = 2, rows = [[1, 2], [3, 4 :: int]]\<rparr> 2
       = \<lparr>nrows = 2, ncols = 2, rows = [[1, 2], [3, 4]]\<rparr>"
  using crop_or_pad_idempotent [of "\<lparr>nrows = 1, ncols = 3, rows = [[1, 2, 3 :: int]]\<rparr>" 2]
    crop_or_pad_idempotent [of "\<lparr>nrows = 2, ncols = 2, rows = [[1, 2], [3, 4 :: int]]\<rparr>" 2]
  by code_simp

section \<open>Properties of the axial slice window\<close>

lemma bit_length_less: "n < 2 ^ bit_length n"
proof (induction n rule: bit_length.induct)
  case (1 n)
  show ?case
  proof (cases "n = 0")
    case True
    then show ?thesis by (simp add: bit_length.simps[of 0])
  next
    case False
    then have "n div 2 < 2 ^ bit_length (n div 2)" using 1 by simp
    then have "n < 2 * 2 ^ bit_length (n div 2)" by linarith
    then show ?thesis using False by (simp add: bit_length.simps[of n])
  qed
qed

lemma bit_length_le: "n < 2 ^ k \<Longrightarrow> bit_length n \<le> k"
proof (induction n arbitrary: k rule: bit_length.induct)
  case (1 n)
  show ?case
  proof (cases "n = 0")
    case True
    then show ?thesis by (simp add: bit_length.simps[of 0])
  next
    case False
    then obtain j where k: "k = Suc j" using 1(2) by (cases k) auto
    then have "n div 2 < 2 ^ j" using 1(2) by auto
    then have "bit_length (n div 2) \<le> j" using 1(1) False by simp
    then show ?thesis using False k by (simp add: bit_length.simps[of n])
  qed
qed

lemma round53_le: "round53 n \<le> 2 ^ bit_length n"
proof (cases "bit_length n \<le> 53")
  case True
  then show ?thesis using bit_length_less[of n] by (simp add: round53_def Let_def)
next
  case False
  define s where "s = bit_length n - 53"
  have l: "bit_length n = 53 + s" using False by (simp add: s_def)
  have "n < 2 ^ 53 * 2 ^ s" using bit_length_less[of n] by (simp add: l power_add)
  then have "n div 2 ^ s < 2 ^ 53"
    by (simp add: less_mult_imp_div_less)
  then have "(if n mod 2 ^ s > 2 ^ (s - 1) \<or> (n mod 2 ^ s = 2 ^ (s - 1) \<and> odd (n div 2 ^ s))
              then n div 2 ^ s + 1 else n div 2 ^ s) \<le> 2 ^ 53" by simp
  then have "(if n mod 2 ^ s > 2 ^ (s - 1) \<or> (n mod 2 ^ s = 2 ^ (s - 1) \<and> odd (n div 2 ^ s))
              then n div 2 ^ s + 1 else n div 2 ^ s) * 2 ^ s \<le> 2 ^ 53 * 2 ^ s"
    by (rule mult_le_mono1)
  then show ?thesis using False by (simp add: round53_def Let_def s_def[symmetric] l power_add)
qed

lemma round53_lt: "n < 2 ^ k \<Longrightarrow> round53 n div 2 < 2 ^ k"
proof -
  assume a: "n < 2 ^ k"
  then have "bit_length n \<le> k" by (rule bit_length_le)
  then have "(2::nat) ^ bit_length n \<le> 2 ^ k" by (rule power_increasing) simp
  then have r: "round53 n \<le> 2 ^ k" using round53_le[of n] by (rule le_trans[rotated])
  show ?thesis
  proof (cases "round53 n = 0")
    case True
    then show ?thesis by simp
  next
    case False
    then have "round53 n div 2 < round53 n" by simp
    then show ?thesis using r by (rule less_le_trans)
  qed
qed

lemma int_half_overflow: "int_half t = Inl e \<Longrightarrow> e = OverflowError \<and> 2 ^ float_max_exp \<le> \<bar>t\<bar>"
proof -
  assume a: "int_half t = Inl e"
  then have big: "round53 (nat \<bar>t\<bar>) div 2 \<ge> 2 ^ float_max_exp" and e: "e = OverflowError"
    by (auto simp: int_half_def Let_def split: if_splits)
  have "\<not> nat \<bar>t\<bar> < 2 ^ float_max_exp"
    using round53_lt[of "nat \<bar>t\<bar>" float_max_exp] big by auto
  then have "2 ^ float_max_exp \<le> nat \<bar>t\<bar>" by simp
  then have "int (2 ^ float_max_exp) \<le> int (nat \<bar>t\<bar>)" by (simp only: of_nat_le_iff)
  then have "2 ^ float_max_exp \<le> \<bar>t\<bar>" by simp
  with e show ?thesis by simp
qed

lemma int_half_le1: "int_half t = Inr q \<Longrightarrow> t \<le> 1 \<Longrightarrow> q \<le> 0"
proof -
  assume a: "int_half t = Inr q" and t: "t \<le> 1"
  have q: "q = sgn t * int (round53 (nat \<bar>t\<bar>) div 2)"
    using a by (auto simp: int_half_def Let_def split: if_splits)
  show ?thesis
  proof (cases "t = 1")
    case True
    have "bit_length (Suc 0) = Suc 0" by (simp add: bit_length.simps[of "Suc 0"] bit_length.simps[of 0])
    then have "round53 (Suc 0) = Suc 0" by (simp add: round53_def Let_def)
    then show ?thesis using q True by simp
  next
    case False
    then have "t \<le> 0" using t by simp
    then have "sgn t \<le> 0" by (simp add: sgn_if)
    then show ?thesis using q by (simp add: mult_le_0_iff)
  qed
qed

lemma int_half_1: "int_half 1 = Inr 0"
proof -
  have "bit_length (Suc 0) = Suc 0"
    by (simp add: bit_length.simps [of "Suc 0"] bit_length.simps [of 0])
  then have "round53 (Suc 0) = Suc 0" by (simp add: round53_def)
  then show ?thesis by (simp add: int_half_def)
qed

text \<open>Claim C10. In axial rendering over a non-empty volume, for every integer thickness
  (zero and negative ones too) and every integer slice index, the averaging window
  \<open>[z_start, z_end)\<close> holds at least one slice, contains the clamped centre slice and lies
  inside the volume; for a thickness of at most 1 it is exactly the clamped centre slice.
  The only way no window is formed is the OverflowError of \<open>thickness / 2\<close>, which needs
  a thickness of at least \<open>2 ^ 1024\<close> in absolute value.\<close>

theorem axial_window_nonempty:
  assumes "0 < max_slice"
  shows "case axial_window max_slice slice_idx thickness of
           Inr (zc, zs, ze) \<Rightarrow>
             zc = max 0 (min slice_idx (max_slice - 1)) \<and>
             0 \<le> zs \<and> zs \<le> zc \<and> zc < ze \<and> ze \<le> max_slice \<and>
             (thickness \<le> 1 \<longrightarrow> zs = zc \<and> ze = zc + 1)
         | Inl e \<Rightarrow> e = OverflowError \<and> 2 ^ float_max_exp \<le> \<bar>thickness\<bar>"
proof (cases "int_half thickness")
  case (Inl e)
  then show ?thesis using int_half_overflow[OF Inl] by (simp add: axial_window_def)
next
  case (Inr q)
  define zc where "zc = max 0 (min slice_idx (max_slice - 1))"
  define h where "h = max 0 q"
  define zs where "zs = max 0 (zc - h)"
  define ze where "ze = min max_slice (zc + h + 1)"
  have zc: "0 \<le> zc" "zc < max_slice" using assms by (simp_all add: zc_def)
  have h: "0 \<le> h" by (simp add: h_def)
  have zs: "0 \<le> zs" "zs \<le> zc" using zc h by (simp_all add: zs_def)
  have ze: "zc < ze" "ze \<le> max_slice" using zc h by (simp_all add: ze_def)
  have "\<not> ze \<le> zs" using zs ze by simp
  then have w: "axial_window max_slice slice_idx thickness = Inr (zc, zs, ze)"
    using Inr by (simp add: axial_window_def Let_def zc_def[symmetric] h_def[symmetric]
        zs_def[symmetric] ze_def[symmetric])
  have thin: "zs = zc \<and> ze = zc + 1" if "thickness \<le> 1"
  proof -
    have "h = 0" using int_half_le1[OF Inr that] by (simp add: h_def)
    then show ?thesis using zc by (simp add: zs_def ze_def)
  qed
  show ?thesis using zs ze thin by (simp add: w zc_def[symmetric])
qed


theorem axial_window_nonempty_witness:
  "(0::int) < 20 \<and> (1::int) \<le> 1 \<and> axial_window 20 25 1 = Inr (19, 19, 20)"
  using axial_window_nonempty [where max_slice = 20 and slice_idx = 25 and thickness = 1]
  by (simp add: axial_window_def int_half_1)


section \<open>Properties of the signal equations\<close>

lemma float_max_ge: "2 ^ 1023 \<le> float_max"
proof -
  have "(1::real) \<le> 2 - 1 / 2 ^ 52" by simp
  then have "1 * 2 ^ 1023 \<le> (2 - 1 / 2 ^ 52) * (2 ^ 1023 :: real)"
    by (rule mult_right_mono) simp
  then show ?thesis by (simp only: float_max_def mult_1)
qed

lemma float_max_ge_small: "x \<le> 4 \<Longrightarrow> x \<le> float_max"
proof -
  assume "x \<le> 4"
  moreover have "(4::real) = 2 ^ 2" by simp
  moreover have "(2::real) ^ 2 \<le> 2 ^ 1023" by (rule power_increasing) simp_all
  ultimately show ?thesis using float_max_ge by linarith
qed

lemma float_max_pos: "0 < float_max"
  using float_max_ge_small[of 1] by simp

lemma fin_id: "- float_max \<le> x \<Longrightarrow> x \<le> float_max \<Longrightarrow> fin x = Fin x"
  by (simp add: fin_def)

lemma fin_small: "\<bar>x\<bar> \<le> 4 \<Longrightarrow> fin x = Fin x"
proof -
  assume a: "\<bar>x\<bar> \<le> 4"
  have "x \<le> float_max" using a float_max_ge_small[of x] by simp
  moreover have "- x \<le> float_max" using a float_max_ge_small[of "- x"] by simp
  ultimately show ?thesis by (simp add: fin_def)
qed

lemma fin_nonneg: "0 \<le> x \<Longrightarrow> nonneg_or_inf (fin x)"
  using float_max_pos by (simp add: fin_def nonneg_or_inf_def)

lemma sin_deg_pos: "0 < fa \<Longrightarrow> fa < 180 \<Longrightarrow> 0 < sin (fa * pi / 180)"
  by (rule sin_gt_zero) (simp_all add: field_simps)

lemma cos_deg_lt1: "0 < fa \<Longrightarrow> fa < 180 \<Longrightarrow> cos (fa * pi / 180) < 1"
proof -
  assume a: "0 < fa" "fa < 180"
  have "0 < fa * pi / 180" using a by simp
  moreover have "fa * pi / 180 \<le> pi" using a by (simp add: field_simps)
  ultimately have "cos (fa * pi / 180) < cos 0" by (intro cos_monotone_0_pi) simp_all
  then show ?thesis by simp
qed

lemma radians_deg: "0 < fa \<Longrightarrow> fa < 180 \<Longrightarrow> radians fa = Fin (fa * pi / 180)"
proof -
  assume a: "0 < fa" "fa < 180"
  have "fa * pi / 180 \<le> pi" using a by (simp add: field_simps)
  moreover have "pi \<le> 4" using pi_less_4 by simp
  ultimately have "fa * pi / 180 \<le> 4" by (rule order_trans)
  moreover have "0 \<le> fa * pi / 180" using a by simp
  ultimately have "\<bar>fa * pi / 180\<bar> \<le> 4" by (simp only: abs_of_nonneg)
  then show ?thesis by (simp only: radians_def fin_small)
qed

text \<open>The decay factor \<open>exp (- t / c)\<close> for \<open>t \<ge> 0\<close> and \<open>c > 0\<close> is a float in \<open>[0, 1]\<close>; it is 0
  when the quotient overflows.\<close>

lemma decay_factor:
  assumes "0 < c" "0 \<le> t"
  shows "\<exists>e. fexp (fdiv (Fin (- t)) (Fin c)) = Fin e \<and> 0 \<le> e \<and> e \<le> 1"
proof (cases "- t / c < - float_max")
  case True
  then have "fin (- t / c) = NInf" using float_max_pos by (simp add: fin_def)
  then show ?thesis using assms by simp
next
  case False
  have le: "- t / c \<le> 0" using assms by (simp add: field_simps)
  then have "\<not> - t / c > float_max" using float_max_pos by linarith
  then have f: "fin (- t / c) = Fin (- t / c)" using False by (simp add: fin_def)
  have e: "0 < exp (- t / c)" "exp (- t / c) \<le> 1" using le by simp_all
  then have "\<bar>exp (- t / c)\<bar> \<le> 4" by linarith
  then have "fin (exp (- t / c)) = Fin (exp (- t / c))" by (rule fin_small)
  then show ?thesis using assms f e by simp
qed

lemma nonneg_mul_pos: "nonneg_or_inf v \<Longrightarrow> 0 < y \<Longrightarrow> nonneg_or_inf (fmul v (Fin y))"
  by (cases v) (simp_all add: nonneg_or_inf_def fin_nonneg[unfolded nonneg_or_inf_def] inf_of_sign_def)

lemma nonneg_div_pos: "nonneg_or_inf v \<Longrightarrow> 0 < y \<Longrightarrow> nonneg_or_inf (fdiv v (Fin y))"
  by (cases v) (simp_all add: nonneg_or_inf_def fin_nonneg[unfolded nonneg_or_inf_def])

lemma nonneg_mul_nonneg:
  "nonneg_or_inf v \<Longrightarrow> 0 \<le> y \<Longrightarrow> fmul v (Fin y) = NaN \<or> nonneg_or_inf (fmul v (Fin y))"
  by (cases v) (simp_all add: nonneg_or_inf_def fin_nonneg[unfolded nonneg_or_inf_def] inf_of_sign_def)

lemma nan_to_num_nonneg:
  "v = NaN \<or> nonneg_or_inf v \<Longrightarrow> \<exists>s. nan_to_num v = Fin s \<and> 0 \<le> s"
  using float_max_pos by (cases v) (auto simp: nonneg_or_inf_def)

lemma steady_state_signal_nonneg:
  assumes "0 < t1" "0 < t2" "0 \<le> pd" "0 \<le> tr" "0 \<le> te" "0 < fa" "fa < 180"
  shows "steady_state_signal (Fin t1) (Fin t2) (Fin pd) tr te fa = NaN
       \<or> nonneg_or_inf (steady_state_signal (Fin t1) (Fin t2) (Fin pd) tr te fa)"
proof -
  define a where "a = max t1 (1 / 10 ^ 5)"
  define b where "b = max t2 (1 / 10 ^ 5)"
  define c where "c = cos (fa * pi / 180)"
  define sn where "sn = sin (fa * pi / 180)"
  have a: "0 < a" and b: "0 < b" using assms by (simp_all add: a_def b_def)
  obtain e1 where x1: "fexp (fdiv (Fin (- tr)) (Fin a)) = Fin e1" and e1: "0 \<le> e1" "e1 \<le> 1"
    using decay_factor[OF a assms(4)] by blast
  obtain e2 where x2: "fexp (fdiv (Fin (- te)) (Fin b)) = Fin e2" and e2: "0 \<le> e2" "e2 \<le> 1"
    using decay_factor[OF b assms(5)] by blast
  have sn: "0 < sn" using assms sin_deg_pos by (simp add: sn_def)
  have c: "c < 1" "- 1 \<le> c" using assms cos_deg_lt1 by (simp_all add: c_def)
  have ec: "e1 * c < 1"
  proof (cases "c \<le> 0")
    case True
    then have "e1 * c \<le> 0" using e1 by (simp add: mult_le_0_iff)
    then show ?thesis by simp
  next
    case False
    then have "e1 * c \<le> 1 * c" using e1 by (intro mult_right_mono) simp_all
    then show ?thesis using c by simp
  qed
  have ec': "- 1 \<le> e1 * c"
  proof -
    have "\<bar>e1 * c\<bar> \<le> 1 * 1" unfolding abs_mult using e1 c by (intro mult_mono) simp_all
    then show ?thesis by simp
  qed
  have m1: "fmaximum (Fin t1) (Fin (1 / 10 ^ 5)) = Fin a" by (simp only: fmaximum.simps a_def)
  have m2: "fmaximum (Fin t2) (Fin (1 / 10 ^ 5)) = Fin b" by (simp only: fmaximum.simps b_def)
  have s1: "fsin (radians fa) = Fin sn" using assms by (simp add: radians_deg sn_def)
  have c1: "fcos (radians fa) = Fin c" using assms by (simp add: radians_deg c_def)
  have o1: "fsub (Fin 1) (Fin e1) = Fin (1 - e1)"
    using e1 by (simp add: fsub_def fin_small)
  have n1: "nonneg_or_inf (fmul (Fin pd) (Fin (1 - e1)))"
    using assms e1 by (simp add: fin_nonneg)
  have n2: "nonneg_or_inf (fmul (fmul (Fin pd) (Fin (1 - e1))) (Fin sn))"
    using n1 sn by (rule nonneg_mul_pos)
  have p1: "fmul (Fin e1) (Fin c) = Fin (e1 * c)" using ec ec' by (simp add: fin_small)
  have p2: "fsub (Fin 1) (Fin (e1 * c)) = Fin (1 - e1 * c)"
    using ec ec' by (simp add: fsub_def fin_small)
  have p3: "fadd (Fin (1 - e1 * c)) (Fin (1 / 10 ^ 9)) = Fin (1 - e1 * c + 1 / 10 ^ 9)"
    using ec ec' by (simp add: fin_small)
  have den: "0 < 1 - e1 * c + 1 / 10 ^ 9" using ec by simp
  have q: "nonneg_or_inf (fdiv (fmul (fmul (Fin pd) (Fin (1 - e1))) (Fin sn))
      (Fin (1 - e1 * c + 1 / 10 ^ 9)))"
    using n2 den by (rule nonneg_div_pos)
  have eq: "steady_state_signal (Fin t1) (Fin t2) (Fin pd) tr te fa
      = fmul (fdiv (fmul (fmul (Fin pd) (Fin (1 - e1))) (Fin sn))
          (Fin (1 - e1 * c + 1 / 10 ^ 9))) (Fin e2)"
    by (simp only: steady_state_signal_def Let_def m1 m2 x1 x2 s1 c1 o1 p1 p2 p3)
  show ?thesis unfolding eq using q e2(1) by (rule nonneg_mul_nonneg)
qed

text \<open>Claim C3. For T1 > 0, T2 > 0, PD \<ge> 0, TR \<ge> 0, TE \<ge> 0 and a flip angle strictly
  between 0 and 180 degrees, the steady-state signal is a finite value and is not negative.\<close>

theorem steady_state_finite_nonneg:
  assumes "0 < t1" "0 < t2" "0 \<le> pd" "0 \<le> tr" "0 \<le> te" "0 < fa" "fa < 180"
  shows "\<exists>s. calculate_signal_steady_state (Fin t1) (Fin t2) (Fin pd) tr te fa = Fin s \<and> 0 \<le> s"
  unfolding calculate_signal_steady_state_def
  using steady_state_signal_nonneg[OF assms] by (rule nan_to_num_nonneg)

theorem steady_state_finite_nonneg_witness:
  "(0::real) < 600 \<and> (0::real) < 70 \<and> (0::real) \<le> 7 / 10 \<and> (0::real) \<le> 500 \<and> (0::real) \<le> 20
   \<and> (0::real) < 90 \<and> (90::real) < 180
   \<and> (\<exists>s. calculate_signal_steady_state (Fin 600) (Fin 70) (Fin (7 / 10)) 500 20 90 = Fin s \<and> 0 \<le> s)"
  using steady_state_finite_nonneg [of 600 70 "7 / 10" 500 20 90] by simp

lemma float_max_ge_mid: "x \<le> 2 ^ 1023 \<Longrightarrow> x \<le> float_max"
  using float_max_ge by linarith

lemma fin_mid: "\<bar>x\<bar> \<le> 2 ^ 1023 \<Longrightarrow> fin x = Fin x"
proof -
  assume a: "\<bar>x\<bar> \<le> 2 ^ 1023"
  have "x \<le> float_max" using a float_max_ge by linarith
  moreover have "- float_max \<le> x" using a float_max_ge by linarith
  ultimately show ?thesis by (simp add: fin_def)
qed

lemma fin_exp_neg: "x \<le> 0 \<Longrightarrow> fin (exp x) = Fin (exp x)"
proof -
  assume "x \<le> 0"
  then have "exp x \<le> 1" by simp
  moreover have "0 < exp x" by simp
  ultimately have "\<bar>exp x\<bar> \<le> 4" by linarith
  then show ?thesis by (rule fin_small)
qed

lemma float_max_less: "float_max < 2 ^ 1024"
proof -
  have "(2 - 1 / 2 ^ 52) * (2 ^ 1023 :: real) < 2 * 2 ^ 1023"
    by (rule mult_strict_right_mono) simp_all
  then show ?thesis by (simp only: float_max_def) simp
qed

lemma exp_2000_overflows: "float_max < exp 2000"
proof -
  have "(2::real) \<le> exp 1" using exp_ge_add_one_self[of 1] by simp
  then have "(2::real) ^ 2000 \<le> exp 1 ^ 2000" by (rule power_mono) simp
  moreover have "exp (1::real) ^ 2000 = exp (of_nat 2000 * 1)" by (rule exp_of_nat_mult[symmetric])
  moreover have "(2::real) ^ 1024 \<le> 2 ^ 2000" by (rule power_increasing) simp_all
  ultimately have "(2::real) ^ 1024 \<le> exp 2000" by simp
  then show ?thesis using float_max_less by linarith
qed


lemma mz_null_neg: "0 < (t1::real) \<Longrightarrow> (1 - 2 * exp (- ti / t1) < 0) = (ti < t1 * ln 2)"
proof -
  assume t1: "0 < t1"
  have h: "exp (- ln 2) = (1 / 2 :: real)" by (simp add: exp_minus)
  have "(1 - 2 * exp (- ti / t1) < 0) = (exp (- ln 2) < exp (- ti / t1))"
    unfolding h by auto
  also have "\<dots> = (- ln 2 < - ti / t1)" by (simp only: exp_less_cancel_iff)
  also have "\<dots> = (ti < t1 * ln 2)" using t1 by (simp add: field_simps)
  finally show ?thesis .
qed

lemma mz_null_pos: "0 < (t1::real) \<Longrightarrow> (0 < 1 - 2 * exp (- ti / t1)) = (t1 * ln 2 < ti)"
proof -
  assume t1: "0 < t1"
  have h: "exp (- ln 2) = (1 / 2 :: real)" by (simp add: exp_minus)
  have "(0 < 1 - 2 * exp (- ti / t1)) = (exp (- ti / t1) < exp (- ln 2))"
    unfolding h by auto
  also have "\<dots> = (- ti / t1 < - ln 2)" by (simp only: exp_less_cancel_iff)
  also have "\<dots> = (t1 * ln 2 < ti)" using t1 by (simp add: field_simps)
  finally show ?thesis .
qed

text \<open>A decay factor whose quotient stays in the float range is the exact exponential.\<close>

lemma decay_exact:
  assumes "0 < c" "0 \<le> t" "t / c \<le> float_max"
  shows "fexp (fdiv (Fin (- t)) (Fin c)) = Fin (exp (- t / c))"
proof -
  have le: "- t / c \<le> 0" using assms by (simp add: field_simps)
  have "- float_max \<le> - t / c" using assms(3) by simp
  moreover have "- t / c \<le> float_max" using le float_max_pos by linarith
  ultimately have "fin (- t / c) = Fin (- t / c)" by (rule fin_id)
  then show ?thesis using assms(1) le by (simp add: fin_exp_neg)
qed

lemma mz_ti_exact:
  assumes "0 < t1" "0 \<le> tr" "0 \<le> ti" "ti / t1 \<le> float_max" "tr / t1 \<le> float_max"
  shows "mz_ti (Fin t1) tr ti = Fin (1 - 2 * exp (- ti / t1) + exp (- tr / t1))"
proof -
  define a where "a = exp (- ti / t1)"
  define b where "b = exp (- tr / t1)"
  have a: "0 < a" "a \<le> 1" using assms by (simp_all add: a_def field_simps)
  have b: "0 < b" "b \<le> 1" using assms by (simp_all add: b_def field_simps)
  have x1: "fexp (fdiv (Fin (- ti)) (Fin t1)) = Fin a"
    unfolding a_def using assms(1,3,4) by (rule decay_exact)
  have x2: "fexp (fdiv (Fin (- tr)) (Fin t1)) = Fin b"
    unfolding b_def using assms(1,2,5) by (rule decay_exact)
  have m: "fmul (Fin 2) (Fin a) = Fin (2 * a)" using a by (simp add: fin_small)
  have s: "fsub (Fin 1) (Fin (2 * a)) = Fin (1 - 2 * a)" using a by (simp add: fsub_def fin_small)
  have p: "fadd (Fin (1 - 2 * a)) (Fin b) = Fin (1 - 2 * a + b)" using a b by (simp add: fin_small)
  show ?thesis
    by (simp only: mz_ti_def x1 x2 m s p) (simp only: a_def b_def)
qed

text \<open>With its term \<open>exp (- TR / T1)\<close> the longitudinal term of the code does not vanish at
  \<open>TI = T1 * ln 2\<close>: it is that term.\<close>

lemma mz_ti_at_null:
  assumes "0 < t1" "0 \<le> tr" "tr / t1 \<le> float_max"
  shows "mz_ti (Fin t1) tr (t1 * ln 2) = Fin (exp (- tr / t1))"
proof -
  have l: "0 \<le> ln (2::real)" "ln (2::real) \<le> 4" using ln_le_minus_one[of "2::real"] by simp_all
  have q: "t1 * ln 2 / t1 = ln 2" using assms(1) by simp
  have a: "0 \<le> t1 * ln 2" using assms(1) l by simp
  have b: "t1 * ln 2 / t1 \<le> float_max" using l float_max_ge_small[of "ln 2"] by (simp only: q)
  have "exp (- (t1 * ln 2) / t1) = exp (- ln (2::real))" using assms(1) by simp
  also have "\<dots> = 1 / 2" by (simp add: exp_minus inverse_eq_divide)
  finally have e: "exp (- (t1 * ln 2) / t1) = 1 / 2" .
  have "mz_ti (Fin t1) tr (t1 * ln 2)
      = Fin (1 - 2 * exp (- (t1 * ln 2) / t1) + exp (- tr / t1))"
    using assms(1,2) a b assms(3) by (rule mz_ti_exact)
  then show ?thesis by (simp only: e) simp
qed


text \<open>Claim C4, as amended. For T1 > 0, T2 > 0 and TR, TE, TI \<ge> 0, when no intermediate
  result leaves the float range (the quotients TI/T1, TR/T1, TE/T2, the flip angle in
  radians and the product PD * Mz are at most the largest float in absolute value),
  \<open>inversion_recovery\<close> returns \<open>|PD * Mz * sin FA * exp (- TE / T2)|\<close> with
  \<open>Mz = 1 - 2 * exp (- TI / T1) + exp (- TR / T1)\<close>, the value of \<open>mz_ti\<close>; and the \<open>mz_ti\<close> of
  the code with its term \<open>exp (- TR / T1)\<close> taken out is negative exactly for
  \<open>TI < T1 * ln 2\<close> and positive exactly for \<open>TI > T1 * ln 2\<close>.\<close>

theorem inversion_recovery_formula:
  assumes "0 < t1" "0 < t2" "0 \<le> tr" "0 \<le> te" "0 \<le> ti"
    and "ti / t1 \<le> float_max" "tr / t1 \<le> float_max" "te / t2 \<le> float_max"
    and "\<bar>fa * pi / 180\<bar> \<le> float_max"
    and "\<bar>pd * (1 - 2 * exp (- ti / t1) + exp (- tr / t1))\<bar> \<le> float_max"
  shows "mz_ti (Fin t1) tr ti = Fin (1 - 2 * exp (- ti / t1) + exp (- tr / t1))
       \<and> inversion_recovery (Fin t1) (Fin t2) (Fin pd) tr te ti fa
           = Fin \<bar>pd * (1 - 2 * exp (- ti / t1) + exp (- tr / t1)) * sin (fa * pi / 180)
                    * exp (- te / t2)\<bar>
       \<and> (case mz_ti (Fin t1) tr ti of
            Fin m \<Rightarrow> ((m - exp (- tr / t1) < 0) = (ti < t1 * ln 2))
                     \<and> ((0 < m - exp (- tr / t1)) = (t1 * ln 2 < ti))
          | _ \<Rightarrow> False)"
proof -
  define mz where "mz = 1 - 2 * exp (- ti / t1) + exp (- tr / t1)"
  define sn where "sn = sin (fa * pi / 180)"
  define e where "e = exp (- te / t2)"
  have m: "mz_ti (Fin t1) tr ti = Fin mz"
    unfolding mz_def using assms(1,3,5,6,7) by (rule mz_ti_exact)
  have x: "fexp (fdiv (Fin (- te)) (Fin t2)) = Fin e"
    unfolding e_def using assms(2,4,8) by (rule decay_exact)
  have e: "0 < e" "e \<le> 1" using assms by (simp_all add: e_def field_simps)
  have sn: "\<bar>sn\<bar> \<le> 1" by (simp add: sn_def)
  have r: "radians fa = Fin (fa * pi / 180)"
    unfolding radians_def using assms(9) by (intro fin_id) linarith+
  have b0: "\<bar>pd * mz\<bar> \<le> float_max" using assms(10) by (simp only: mz_def)
  have p1: "fmul (Fin pd) (Fin mz) = Fin (pd * mz)"
    using b0 by (simp only: fmul.simps) (intro fin_id; linarith)
  have "\<bar>pd * mz * sn\<bar> \<le> \<bar>pd * mz\<bar> * 1"
    unfolding abs_mult[of "pd * mz" sn] using sn by (intro mult_left_mono) simp_all
  then have b1: "\<bar>pd * mz * sn\<bar> \<le> float_max" using b0 by linarith
  have p2: "fmul (Fin (pd * mz)) (Fin sn) = Fin (pd * mz * sn)"
    using b1 by (simp only: fmul.simps) (intro fin_id; linarith)
  have "\<bar>pd * mz * sn * e\<bar> \<le> \<bar>pd * mz * sn\<bar> * 1"
    unfolding abs_mult[of "pd * mz * sn" e] using e by (intro mult_left_mono) simp_all
  then have b2: "\<bar>pd * mz * sn * e\<bar> \<le> float_max" using b1 by linarith
  have p3: "fmul (Fin (pd * mz * sn)) (Fin e) = Fin (pd * mz * sn * e)"
    using b2 by (simp only: fmul.simps) (intro fin_id; linarith)
  have ir: "inversion_recovery (Fin t1) (Fin t2) (Fin pd) tr te ti fa = Fin \<bar>pd * mz * sn * e\<bar>"
    by (simp only: inversion_recovery_def inversion_recovery_signal_def Let_def m x r
        fsin.simps sn_def[symmetric] p1 p2 p3 fabs.simps nan_to_num.simps)
  have s1: "(mz - exp (- tr / t1) < 0) = (ti < t1 * ln 2)"
    using mz_null_neg[OF assms(1), of ti] by (simp add: mz_def)
  have s2: "(0 < mz - exp (- tr / t1)) = (t1 * ln 2 < ti)"
    using mz_null_pos[OF assms(1), of ti] by (simp add: mz_def)
  show ?thesis
    using m ir s1 s2 by (simp add: mz_def sn_def e_def)
qed

theorem inversion_recovery_formula_witness:
  "(0::real) < 1000 \<and> (0::real) < 100 \<and> (0::real) \<le> 5000 \<and> (0::real) \<le> 20 \<and> (0::real) \<le> 2000
   \<and> mz_ti (Fin 1000) 5000 2000 = Fin (1 - 2 * exp (- 2000 / 1000) + exp (- 5000 / 1000))
   \<and> inversion_recovery (Fin 1000) (Fin 100) (Fin 1) 5000 20 2000 90
       = Fin \<bar>1 * (1 - 2 * exp (- 2000 / 1000) + exp (- 5000 / 1000)) * sin (90 * pi / 180)
                * exp (- 20 / 100)\<bar>"
proof -
  have q: "(2000::real) / 1000 \<le> float_max" "(5000::real) / 1000 \<le> float_max"
    "(20::real) / 100 \<le> float_max"
    by (rule float_max_ge_mid, simp)+
  have "\<bar>90 * pi / 180\<bar> \<le> (4::real)" using pi_less_4 by simp
  then have r: "\<bar>90 * pi / 180\<bar> \<le> float_max" using float_max_ge_small by blast
  have "\<bar>1 - 2 * exp (- 2000 / 1000) + exp (- 5000 / 1000 :: real)\<bar> \<le> 4"
  proof -
    have "exp (- 2000 / 1000 :: real) \<le> 1" "0 < exp (- 2000 / 1000 :: real)"
      "exp (- 5000 / 1000 :: real) \<le> 1" "0 < exp (- 5000 / 1000 :: real)" by simp_all
    then show ?thesis by linarith
  qed
  then have "\<bar>1 * (1 - 2 * exp (- 2000 / 1000) + exp (- 5000 / 1000 :: real))\<bar> \<le> 4" by simp
  then have p: "\<bar>1 * (1 - 2 * exp (- 2000 / 1000) + exp (- 5000 / 1000 :: real))\<bar> \<le> float_max"
    using float_max_ge_small by blast
  show ?thesis
    using inversion_recovery_formula [where ?t1.0 = 1000 and ?t2.0 = 100 and pd = 1 and tr = 5000
      and te = 20 and ti = 2000 and fa = 90, OF _ _ _ _ _ q r p]
    by simp
qed

text \<open>Claim C4 as stated fails where an intermediate result overflows: with T1 = T2 = PD = 1,
  TR = TE = 0, FA = 90 and TI = -2000 the exponential is infinite, the result is the largest
  float, and the value of the formula is above it.\<close>

theorem inversion_recovery_overflow_counterexample:
  "inversion_recovery (Fin 1) (Fin 1) (Fin 1) 0 0 (- 2000) 90 = Fin float_max
   \<and> float_max < \<bar>1 * (1 - 2 * exp (- (- 2000) / 1) + exp (- 0 / 1)) * sin (90 * pi / 180)
                    * exp (- 0 / 1)\<bar>"
proof -
  have d1: "fdiv (Fin (- (- 2000))) (Fin 1) = Fin 2000" by (simp add: fin_mid)
  have e1: "fexp (Fin 2000) = PInf" using exp_2000_overflows by (simp add: fin_def)
  have d0: "fexp (fdiv (Fin (- 0)) (Fin 1)) = Fin 1" by (simp add: fin_small)
  have mz: "mz_ti (Fin 1) 0 (- 2000) = NInf"
    by (simp only: mz_ti_def d1 e1 d0) (simp add: fsub_def inf_of_sign_def)
  have "\<bar>90 * pi / 180\<bar> \<le> (4::real)" using pi_less_4 by simp
  then have r: "radians 90 = Fin (90 * pi / 180)" by (simp only: radians_def fin_small)
  have s: "fsin (radians 90) = Fin 1" by (simp add: r)
  have ir: "inversion_recovery (Fin 1) (Fin 1) (Fin 1) 0 0 (- 2000) 90 = Fin float_max"
    by (simp only: inversion_recovery_def inversion_recovery_signal_def Let_def mz s d0)
      (simp add: inf_of_sign_def)
  have "float_max < 2 * exp 2000 - 2"
  proof -
    have "(4::real) \<le> 2 ^ 1023" using power_increasing[of 2 1023 "2::real"] by simp
    then have "4 \<le> float_max" using float_max_ge by linarith
    then show ?thesis using exp_2000_overflows by linarith
  qed
  then have "float_max < \<bar>1 * (1 - 2 * exp (- (- 2000) / 1) + exp (- 0 / 1)) * sin (90 * pi / 180)
                    * exp (- 0 / 1)\<bar>"
    by simp
  with ir show ?thesis by simp
qed

text \<open>Claim C5, as amended. In the steady-state and the inversion-recovery computation,
  every NaN of the computed signal is replaced with 0, every positive infinity with the
  largest finite float and every negative infinity with its negation, and a finite entry is
  returned as it is: the returned entry is always finite.\<close>

theorem nan_inf_scrubbed:
  "(case steady_state_signal t1 t2 pd tr te fa of
      NaN \<Rightarrow> calculate_signal_steady_state t1 t2 pd tr te fa = Fin 0
    | PInf \<Rightarrow> calculate_signal_steady_state t1 t2 pd tr te fa = Fin float_max
    | NInf \<Rightarrow> calculate_signal_steady_state t1 t2 pd tr te fa = Fin (- float_max)
    | Fin x \<Rightarrow> calculate_signal_steady_state t1 t2 pd tr te fa = Fin x)
   \<and> (case inversion_recovery_signal t1 t2 pd tr te ti fa of
      NaN \<Rightarrow> inversion_recovery t1 t2 pd tr te ti fa = Fin 0
    | PInf \<Rightarrow> inversion_recovery t1 t2 pd tr te ti fa = Fin float_max
    | NInf \<Rightarrow> inversion_recovery t1 t2 pd tr te ti fa = Fin (- float_max)
    | Fin x \<Rightarrow> inversion_recovery t1 t2 pd tr te ti fa = Fin x)
   \<and> (\<exists>r. calculate_signal_steady_state t1 t2 pd tr te fa = Fin r)
   \<and> (\<exists>r. inversion_recovery t1 t2 pd tr te ti fa = Fin r)"
proof -
  have a: "case steady_state_signal t1 t2 pd tr te fa of
      NaN \<Rightarrow> calculate_signal_steady_state t1 t2 pd tr te fa = Fin 0
    | PInf \<Rightarrow> calculate_signal_steady_state t1 t2 pd tr te fa = Fin float_max
    | NInf \<Rightarrow> calculate_signal_steady_state t1 t2 pd tr te fa = Fin (- float_max)
    | Fin x \<Rightarrow> calculate_signal_steady_state t1 t2 pd tr te fa = Fin x"
    by (cases "steady_state_signal t1 t2 pd tr te fa")
      (simp_all add: calculate_signal_steady_state_def)
  have b: "case inversion_recovery_signal t1 t2 pd tr te ti fa of
      NaN \<Rightarrow> inversion_recovery t1 t2 pd tr te ti fa = Fin 0
    | PInf \<Rightarrow> inversion_recovery t1 t2 pd tr te ti fa = Fin float_max
    | NInf \<Rightarrow> inversion_recovery t1 t2 pd tr te ti fa = Fin (- float_max)
    | Fin x \<Rightarrow> inversion_recovery t1 t2 pd tr te ti fa = Fin x"
    by (cases "inversion_recovery_signal t1 t2 pd tr te ti fa")
      (simp_all add: inversion_recovery_def)
  have c: "\<exists>r. calculate_signal_steady_state t1 t2 pd tr te fa = Fin r"
    by (cases "steady_state_signal t1 t2 pd tr te fa")
      (simp_all add: calculate_signal_steady_state_def)
  have d: "\<exists>r. inversion_recovery t1 t2 pd tr te ti fa = Fin r"
    by (cases "inversion_recovery_signal t1 t2 pd tr te ti fa")
      (simp_all add: inversion_recovery_def)
  from a b c d show ?thesis by blast
qed

lemma white_matter_factors:
  "fmaximum (Fin 600) (Fin (1 / 10 ^ 5)) = Fin 600"
  "fmaximum (Fin 70) (Fin (1 / 10 ^ 5)) = Fin 70"
  "fexp (fdiv (Fin (- 500)) (Fin 600)) = Fin (exp (- 5 / 6))"
  "fexp (fdiv (Fin (- 20)) (Fin 70)) = Fin (exp (- 2 / 7))"
  "fsub (Fin 1) (Fin (exp (- 5 / 6))) = Fin (1 - exp (- 5 / 6))"
proof -
  have e: "0 < exp (- 5 / 6 :: real)" "exp (- 5 / 6 :: real) \<le> 1" by simp_all
  then have "\<bar>1 - exp (- 5 / 6 :: real)\<bar> \<le> 4" by linarith
  then show "fsub (Fin 1) (Fin (exp (- 5 / 6))) = Fin (1 - exp (- 5 / 6))"
    by (simp add: fsub_def fin_small)
qed (simp_all add: fin_small fin_exp_neg)

lemma right_angle:
  "fsin (radians 90) = Fin 1" "fcos (radians 90) = Fin 0"
proof -
  have "\<bar>90 * pi / 180\<bar> \<le> (4::real)" using pi_less_4 by simp
  then have r: "radians 90 = Fin (90 * pi / 180)" by (simp only: radians_def fin_small)
  show "fsin (radians 90) = Fin 1" "fcos (radians 90) = Fin 0" by (simp_all add: r)
qed

lemma unit_denominator:
  "fadd (fsub (Fin 1) (fmul (Fin x) (Fin 0))) (Fin (1 / 10 ^ 9)) = Fin (1 + 1 / 10 ^ 9)"
  by (simp add: fsub_def fin_small)

lemma steady_state_inf_pd: "steady_state_signal (Fin 600) (Fin 70) PInf 500 20 90 = PInf"
proof -
  have n1: "fmul (fmul PInf (Fin (1 - exp (- 5 / 6)))) (Fin 1) = PInf"
    by (simp add: inf_of_sign_def)
  have q1: "fdiv PInf (Fin (1 + 1 / 10 ^ 9)) = PInf" by simp
  have r1: "fmul PInf (Fin (exp (- 2 / 7))) = PInf" by (simp add: inf_of_sign_def)
  show ?thesis
    by (simp only: steady_state_signal_def Let_def white_matter_factors right_angle
        unit_denominator n1 q1 r1)
qed

text \<open>Claim C5 as stated (an infinite entry is replaced with 0) fails: with an infinite
  proton density the steady-state signal is infinite and the returned entry is the largest
  finite float, not 0.\<close>

theorem inf_not_zeroed_counterexample:
  "steady_state_signal (Fin 600) (Fin 70) PInf 500 20 90 = PInf
   \<and> calculate_signal_steady_state (Fin 600) (Fin 70) PInf 500 20 90 \<noteq> Fin 0"
  using float_max_pos by (simp add: calculate_signal_steady_state_def steady_state_inf_pd)

text \<open>Nor is the sign of the signal fixed: with a flip angle of 270 degrees the spin-echo
  signal of white matter is negative.\<close>

lemma spin_echo_negative_at_270:
  "spin_echo (Fin 600) (Fin 70) (Fin (7 / 10)) 500 20 270
     = Fin (- (7 / 10 * (1 - exp (- 5 / 6))) / (1 + 1 / 10 ^ 9) * exp (- 2 / 7))"
  "- (7 / 10 * (1 - exp (- 5 / 6))) / (1 + 1 / 10 ^ 9) * exp (- 2 / 7) < (0::real)"
  "- 1 \<le> - (7 / 10 * (1 - exp (- 5 / 6))) / (1 + 1 / 10 ^ 9) * exp (- 2 / 7 :: real)"
  "fless (spin_echo (Fin 600) (Fin 70) (Fin (7 / 10)) 500 20 270) (Fin 0)"
proof -
  have a: "270 * pi / 180 = 3 / 2 * pi" by simp
  have "\<bar>3 / 2 * pi\<bar> \<le> (2::real) ^ 1023"
  proof -
    have "\<bar>3 / 2 * pi\<bar> \<le> (8::real)" using pi_less_4 pi_gt_zero by simp
    moreover have "(8::real) = 2 ^ 3" by simp
    moreover have "(2::real) ^ 3 \<le> 2 ^ 1023" by (rule power_increasing) simp_all
    ultimately show ?thesis by linarith
  qed
  then have r: "radians 270 = Fin (3 / 2 * pi)" by (simp only: radians_def a fin_mid)
  have s1: "fsin (radians 270) = Fin (- 1)" by (simp only: r fsin.simps sin_3over2_pi)
  have c1: "fcos (radians 270) = Fin 0" by (simp only: r fcos.simps cos_3over2_pi)
  define v where "v = 7 / 10 * (1 - exp (- 5 / 6 :: real))"
  have e: "0 < exp (- 5 / 6 :: real)" "exp (- 5 / 6 :: real) < 1" by simp_all
  have v: "0 < v" "v \<le> 1"
  proof -
    show "0 < v" using e by (simp add: v_def)
    have "v = 7 / 10 - 7 / 10 * exp (- 5 / 6)" by (simp add: v_def algebra_simps)
    moreover have "0 < 7 / 10 * exp (- 5 / 6 :: real)" by simp
    ultimately show "v \<le> 1" by linarith
  qed
  have "fin v = Fin v" using v by (intro fin_small) linarith
  then have n0: "fmul (Fin (7 / 10)) (Fin (1 - exp (- 5 / 6))) = Fin v"
    by (simp only: fmul.simps v_def)
  have n1: "fmul (Fin v) (Fin (- 1)) = Fin (- v)" using v by (simp add: fin_small)
  define w where "w = - v / (1 + 1 / 10 ^ 9)"
  have w: "w < 0" "- 1 \<le> w"
  proof -
    show "w < 0" using v by (simp add: w_def field_simps)
    have "v / (1 + 1 / 10 ^ 9) \<le> v / 1" using v by (intro divide_left_mono) simp_all
    then show "- 1 \<le> w" using v by (simp add: w_def)
  qed
  have nz: "((1 + 1 / 10 ^ 9 :: real) = 0) = False" by simp
  have "fin w = Fin w" using w by (intro fin_small) linarith
  then have q1: "fdiv (Fin (- v)) (Fin (1 + 1 / 10 ^ 9)) = Fin w"
    by (simp only: fdiv.simps nz if_False w_def)
  define u where "u = w * exp (- 2 / 7)"
  have u: "u < 0" "- 1 \<le> u"
  proof -
    have e2: "0 < exp (- 2 / 7 :: real)" "exp (- 2 / 7 :: real) \<le> 1" by simp_all
    show "u < 0" using w e2 by (simp add: u_def mult_neg_pos)
    have "\<bar>w * exp (- 2 / 7)\<bar> \<le> 1 * 1"
      unfolding abs_mult using w e2 by (intro mult_mono) simp_all
    then show "- 1 \<le> u" by (simp add: u_def)
  qed
  have "fin u = Fin u" using u by (intro fin_small) linarith
  then have r1: "fmul (Fin w) (Fin (exp (- 2 / 7))) = Fin u"
    by (simp only: fmul.simps u_def)
  have e: "steady_state_signal (Fin 600) (Fin 70) (Fin (7 / 10)) 500 20 270 = Fin u"
    by (simp only: steady_state_signal_def Let_def white_matter_factors s1 c1
        unit_denominator n0 n1 q1 r1)
  have ue: "u = - (7 / 10 * (1 - exp (- 5 / 6))) / (1 + 1 / 10 ^ 9) * exp (- 2 / 7)"
    by (simp only: u_def w_def v_def)
  have se: "spin_echo (Fin 600) (Fin 70) (Fin (7 / 10)) 500 20 270 = Fin u"
    by (simp only: spin_echo_def calculate_signal_steady_state_def e nan_to_num.simps)
  then show "spin_echo (Fin 600) (Fin 70) (Fin (7 / 10)) 500 20 270
     = Fin (- (7 / 10 * (1 - exp (- 5 / 6))) / (1 + 1 / 10 ^ 9) * exp (- 2 / 7))"
    by (simp only: ue)
  show "- (7 / 10 * (1 - exp (- 5 / 6))) / (1 + 1 / 10 ^ 9) * exp (- 2 / 7) < (0::real)"
    using u(1) by (simp only: ue)
  show "- 1 \<le> - (7 / 10 * (1 - exp (- 5 / 6))) / (1 + 1 / 10 ^ 9) * exp (- 2 / 7 :: real)"
    using u(2) by (simp only: ue)
  show "fless (spin_echo (Fin 600) (Fin 70) (Fin (7 / 10)) 500 20 270) (Fin 0)"
    using u by (simp only: se fless.simps)
qed


section \<open>Properties of the dimension queries and of the loader\<close>

lemma shape_phantom_map: "shape (phantom_map (d0, d1, d2) sel) = [d0, d1, d2]"
  by (simp add: phantom_map_def)

lemma t1_vol_default_phantom:
  "\<exists>v. t1_vol (load_default_phantom st) = Some v \<and> shape v = [128, 128, 20]"
  by (simp add: load_default_phantom_def generate_synthetic_phantom_def shape_phantom_map
      del: upt_rec_numeral)

lemma get_max_slice_3d:
  assumes "t1_vol st = Some v" "shape v = [d0, d1, d2]"
  shows "get_max_slice st ''coronal'' = Inr d0" "get_max_slice st ''sagittal'' = Inr d1"
    "get_max_slice st ''axial'' = Inr d2"
  using assms by (simp_all add: get_max_slice_def shape_at_def)

text \<open>Claim C9. \<open>get_max_slice\<close> returns 0 when no volume is loaded, and for a volume of
  shape \<open>(D0, D1, D2)\<close> it returns \<open>D0\<close> for coronal, \<open>D1\<close> for sagittal and \<open>D2\<close> for axial;
  on the default phantom of shape \<open>(128, 128, 20)\<close> that is 20 for axial, 128 for sagittal
  and 128 for coronal.\<close>

theorem get_max_slice_extent:
  "(t1_vol st = None \<longrightarrow> get_max_slice st plane = Inr 0)
   \<and> (t1_vol st = Some v \<and> shape v = [d0, d1, d2] \<longrightarrow>
        get_max_slice st ''coronal'' = Inr d0 \<and> get_max_slice st ''sagittal'' = Inr d1
        \<and> get_max_slice st ''axial'' = Inr d2)
   \<and> get_max_slice (load_default_phantom st) ''axial'' = Inr 20
   \<and> get_max_slice (load_default_phantom st) ''sagittal'' = Inr 128
   \<and> get_max_slice (load_default_phantom st) ''coronal'' = Inr 128"
proof -
  obtain p where p: "t1_vol (load_default_phantom st) = Some p" "shape p = [128, 128, 20]"
    using t1_vol_default_phantom by blast
  have "t1_vol st = None \<longrightarrow> get_max_slice st plane = Inr 0"
    by (simp add: get_max_slice_def)
  moreover have "t1_vol st = Some v \<and> shape v = [d0, d1, d2] \<longrightarrow>
        get_max_slice st ''coronal'' = Inr d0 \<and> get_max_slice st ''sagittal'' = Inr d1
        \<and> get_max_slice st ''axial'' = Inr d2"
    using get_max_slice_3d by blast
  ultimately show ?thesis using get_max_slice_3d[OF p] by simp
qed

theorem get_max_slice_extent_witness:
  "t1_vol (no_volume :: unit model_state) = None
   \<and> get_max_slice (no_volume :: unit model_state) ''axial'' = Inr 0
   \<and> t1_vol ((no_volume :: unit model_state)\<lparr>t1_vol := Some \<lparr>shape = [2, 3, 1], data = replicate 6 (Fin 0)\<rparr>\<rparr>)
       = Some \<lparr>shape = [2, 3, 1], data = replicate 6 (Fin 0)\<rparr>
   \<and> shape \<lparr>shape = [2, 3, 1], data = replicate 6 (Fin 0)\<rparr> = [2, 3, 1]
   \<and> get_max_slice ((no_volume :: unit model_state)\<lparr>t1_vol := Some \<lparr>shape = [2, 3, 1], data = replicate 6 (Fin 0)\<rparr>\<rparr>)
        ''sagittal'' = Inr 3"
  using get_max_slice_extent [of "no_volume :: unit model_state" "''axial''"]
    get_max_slice_extent [of "(no_volume :: unit model_state)\<lparr>t1_vol := Some \<lparr>shape = [2, 3, 1], data = replicate 6 (Fin 0)\<rparr>\<rparr>"
      "''axial''" "\<lparr>shape = [2, 3, 1], data = replicate 6 (Fin 0)\<rparr>" 2 3 1]
  by (simp add: no_volume_def)

lemma find_key_nonempty: "find_key m as = Some k \<Longrightarrow> [] \<notin> set as \<Longrightarrow> k \<noteq> []"
  by (auto simp: find_key_def find_Some_iff lower_def)

lemma nan_to_num_ones: "nan_to_num_arr (ones_like a) = ones_like a"
  by (simp add: nan_to_num_arr_def ones_like_def)

lemma amax_nonempty: "data a \<noteq> [] \<Longrightarrow> \<exists>mx. amax a = Inr mx"
  by (cases "data a") (simp_all add: amax_def)

lemma finish_load_ok:
  assumes "t1_vol st = Some a1" "data a1 \<noteq> []"
  shows "fst (finish_load st) = (True, Loaded)
       \<and> pd_vol (snd (finish_load st)) = map_option nan_to_num_arr (pd_vol st)"
proof -
  have "data (nan_to_num_arr a1) \<noteq> []" using assms by (simp add: nan_to_num_arr_def)
  then obtain mx where "amax (nan_to_num_arr a1) = Inr mx" using amax_nonempty by blast
  then show ?thesis using assms by (simp add: finish_load_def Let_def)
qed

text \<open>Claim C8, as amended. For a file in the flat schema (no \<open>VObj\<close> entry) whose first keys
  under the T1 and T2 aliases hold numeric arrays, the T1 array having at least one element,
  and with no key under the PD aliases, \<open>load_mat_file\<close> succeeds and the stored PD volume is
  the all-ones array of the shape of T1.\<close>

theorem load_flat_default_pd:
  assumes "map_of m ''VObj'' = None"
    and "find_key m [''t1'', ''t1_map''] = Some k1"
    and "find_key m [''t2'', ''t2_map''] = Some k2"
    and "find_key m [''rho'', ''pd'', ''pd_map''] = None"
    and "map_of m k1 = Some (MatArray a1)"
    and "map_of m k2 = Some (MatArray a2)"
    and "data a1 \<noteq> []"
  shows "fst (load_mat_file st (Inr m)) = (True, Loaded)
       \<and> pd_vol (snd (load_mat_file st (Inr m)))
           = Some \<lparr>shape = shape a1, data = replicate (prod_list (shape a1)) (Fin 1)\<rparr>"
proof -
  have k: "k1 \<noteq> []" "k2 \<noteq> []"
    using assms(2,3) find_key_nonempty by fastforce+
  define st2 where "st2 = st\<lparr>t1_vol := Some a1, t2_vol := Some a2, pd_vol := Some (ones_like a1)\<rparr>"
  have fl: "load_flat st m = Inr (st2, True)"
    using assms k by (simp add: load_flat_def Let_def key_truthy_def lookup_f64_def to_float64_def st2_def)
  have lm: "load_mat_file st (Inr m) = finish_load st2"
    using assms(1) fl by (simp add: load_mat_file_def)
  have "t1_vol st2 = Some a1" "pd_vol st2 = Some (ones_like a1)" by (simp_all add: st2_def)
  then show ?thesis using finish_load_ok[of st2 a1] assms(7)
    by (simp add: lm nan_to_num_ones) (simp add: ones_like_def)
qed

theorem load_flat_default_pd_witness:
  "map_of [(''T1'', MatArray \<lparr>shape = [1, 2], data = [Fin 1, Fin 2]\<rparr>),
           (''t2_map'', MatArray \<lparr>shape = [1, 2], data = [Fin 3, Fin 4]\<rparr>)] ''VObj'' = None
   \<and> find_key [(''T1'', MatArray \<lparr>shape = [1, 2], data = [Fin 1, Fin 2]\<rparr>),
           (''t2_map'', MatArray \<lparr>shape = [1, 2], data = [Fin 3, Fin 4]\<rparr>)] [''t1'', ''t1_map'']
       = Some ''T1''
   \<and> find_key [(''T1'', MatArray \<lparr>shape = [1, 2], data = [Fin 1, Fin 2]\<rparr>),
           (''t2_map'', MatArray \<lparr>shape = [1, 2], data = [Fin 3, Fin 4]\<rparr>)] [''t2'', ''t2_map'']
       = Some ''t2_map''
   \<and> find_key [(''T1'', MatArray \<lparr>shape = [1, 2], data = [Fin 1, Fin 2]\<rparr>),
           (''t2_map'', MatArray \<lparr>shape = [1, 2], data = [Fin 3, Fin 4]\<rparr>)] [''rho'', ''pd'', ''pd_map'']
       = None
   \<and> data \<lparr>shape = [1, 2], data = [Fin 1, Fin 2]\<rparr> \<noteq> []
   \<and> fst (load_mat_file (no_volume :: unit model_state)
         (Inr [(''T1'', MatArray \<lparr>shape = [1, 2], data = [Fin 1, Fin 2]\<rparr>),
               (''t2_map'', MatArray \<lparr>shape = [1, 2], data = [Fin 3, Fin 4]\<rparr>)])) = (True, Loaded)
   \<and> pd_vol (snd (load_mat_file (no_volume :: unit model_state)
         (Inr [(''T1'', MatArray \<lparr>shape = [1, 2], data = [Fin 1, Fin 2]\<rparr>),
               (''t2_map'', MatArray \<lparr>shape = [1, 2], data = [Fin 3, Fin 4]\<rparr>)])))
       = Some \<lparr>shape = [1, 2], data = [Fin 1, Fin 1]\<rparr>"
proof -
  have f: "find_key [(''T1'', MatArray \<lparr>shape = [1, 2], data = [Fin 1, Fin 2]\<rparr>),
           (''t2_map'', MatArray \<lparr>shape = [1, 2], data = [Fin 3, Fin 4]\<rparr>)] [''t1'', ''t1_map'']
       = Some ''T1''"
    "find_key [(''T1'', MatArray \<lparr>shape = [1, 2], data = [Fin 1, Fin 2]\<rparr>),
           (''t2_map'', MatArray \<lparr>shape = [1, 2], data = [Fin 3, Fin 4]\<rparr>)] [''t2'', ''t2_map'']
       = Some ''t2_map''"
    "find_key [(''T1'', MatArray \<lparr>shape = [1, 2], data = [Fin 1, Fin 2]\<rparr>),
           (''t2_map'', MatArray \<lparr>shape = [1, 2], data = [Fin 3, Fin 4]\<rparr>)] [''rho'', ''pd'', ''pd_map'']
       = None"
    by (simp_all add: find_key_def lower_def lower_char_def)
  show ?thesis
    using f load_flat_default_pd [OF _ f(1) f(2) f(3), of "\<lparr>shape = [1, 2], data = [Fin 1, Fin 2]\<rparr>"
        "\<lparr>shape = [1, 2], data = [Fin 3, Fin 4]\<rparr>" "no_volume :: unit model_state"]
    by (simp add: numeral_2_eq_2)
qed

text \<open>Claim C8 as stated fails on an empty T1 array: \<open>np.max\<close> raises on it and the load
  reports failure.\<close>

theorem load_empty_t1_counterexample:
  "find_key [(''T1'', MatArray \<lparr>shape = [0, 0], data = []\<rparr>),
             (''T2'', MatArray \<lparr>shape = [0, 0], data = []\<rparr>)] [''t1'', ''t1_map''] = Some ''T1''
   \<and> find_key [(''T1'', MatArray \<lparr>shape = [0, 0], data = []\<rparr>),
             (''T2'', MatArray \<lparr>shape = [0, 0], data = []\<rparr>)] [''t2'', ''t2_map''] = Some ''T2''
   \<and> find_key [(''T1'', MatArray \<lparr>shape = [0, 0], data = []\<rparr>),
             (''T2'', MatArray \<lparr>shape = [0, 0], data = []\<rparr>)] [''rho'', ''pd'', ''pd_map''] = None
   \<and> fst (load_mat_file (no_volume :: unit model_state)
         (Inr [(''T1'', MatArray \<lparr>shape = [0, 0], data = []\<rparr>),
               (''T2'', MatArray \<lparr>shape = [0, 0], data = []\<rparr>)]))
     = (False, Raised ValueError)"
  by (simp add: load_mat_file_def load_flat_def find_key_def key_truthy_def lower_def
      lower_char_def Let_def lookup_f64_def to_float64_def finish_load_def nan_to_num_arr_def
      amax_def)


text \<open>Claim C1. Volume replacement by \<open>load_mat_file\<close> should be all or nothing. The
  code does not keep to it: for a file whose \<open>VObj\<close> record has a field \<open>T1\<close> and no field
  \<open>T2\<close>, and that has no flat keys, the call reports failure and has replaced the T1 volume
  alone.\<close>

theorem load_partial_on_failure:
  "load_mat_file st (Inr [(''VObj'', MatStruct [(''T1'', MatArray a)])])
     = ((False, NoT1T2), st\<lparr>t1_vol := Some a\<rparr>)"
  by (simp add: load_mat_file_def load_vobj_def field_f64_def to_float64_def load_flat_def
      find_key_def key_truthy_def lower_def lower_char_def Let_def)



section \<open>Properties of the imaging pipeline\<close>












lemma apply_sequence_default:
  assumes "\<not> contains ''FLAIR'' s" "\<not> contains ''EPI'' s" "\<not> contains ''FSE'' s"
  shows "apply_sequence lb s tr te ti fa etl esp t1_s t2_s pd_s
       = broadcast3 (\<lambda>t1 t2 pd. calculate_signal_steady_state t1 t2 pd tr te fa) t1_s t2_s pd_s"
proof -
  have "(\<lambda>t1 t2 pd. spin_echo t1 t2 pd tr te fa)
      = (\<lambda>t1 t2 pd. calculate_signal_steady_state t1 t2 pd tr te fa)"
    by (intro ext) (simp add: spin_echo_def)
  then show ?thesis using assms by (simp add: apply_sequence_def)
qed









lemma clamp_index: "0 < d \<Longrightarrow> nat (max 0 (min idx (int d - 1))) < d"
  by auto











lemma names_without_keyword:
  "\<not> contains ''FLAIR'' ''T1w'' \<and> \<not> contains ''EPI'' ''T1w'' \<and> \<not> contains ''FSE'' ''T1w''
   \<and> \<not> contains ''FLAIR'' ''SE'' \<and> \<not> contains ''EPI'' ''SE'' \<and> \<not> contains ''FSE'' ''SE''"
  by code_simp

lemma round53_small: "n < 2 ^ 53 \<Longrightarrow> round53 n = n"
  using bit_length_le[of n 53] by (simp add: round53_def)

lemma int_to_float_small: "\<bar>n\<bar> < 2 ^ 53 \<Longrightarrow> int_to_float n = Inr (real_of_int n)"
proof -
  assume a: "\<bar>n\<bar> < 2 ^ 53"
  then have "nat \<bar>n\<bar> < 2 ^ 53" by (simp add: nat_less_iff)
  then have r: "round53 (nat \<bar>n\<bar>) = nat \<bar>n\<bar>" and l: "nat \<bar>n\<bar> < 2 ^ 53"
    by (simp_all add: round53_small)
  have "(2::nat) ^ 53 \<le> 2 ^ float_max_exp"
    by (rule power_increasing) (simp_all add: float_max_exp_def)
  then have "\<not> 2 ^ float_max_exp \<le> nat \<bar>n\<bar>" using l by linarith
  moreover have "real_of_int (sgn n) * real (nat \<bar>n\<bar>) = real_of_int n"
    by (cases "n < 0") (simp_all add: sgn_if)
  ultimately show ?thesis by (simp add: int_to_float_def r)
qed







lemma broadcast3_pixels:
  assumes "broadcast3 f a b c = Inr r" "i < nrows r" "j < ncols r"
  shows "rows r ! i ! j = f (pix a i j) (pix b i j) (pix c i j)"
  using assms by (auto simp: broadcast3_def split: option.splits)

text \<open>Claim C7. For a sequence name that contains none of \<open>FLAIR\<close>, \<open>EPI\<close>, \<open>FSE\<close>,
  \<open>calculate_image\<close> is the pipeline whose signal stage computes, at each voxel of the slab,
  the steady-state equation with the given TR, TE and FA (the spin-echo branch): the slab
  is extracted, the signal image has \<open>calculate_signal_steady_state\<close> at each pixel, and that
  image is resampled and cached. The name enters nowhere else, so the call gives what it
  gives for any other such name, a spin-echo request in particular, and the name raises
  nothing.\<close>

theorem unknown_sequence_is_spin_echo:
  assumes "\<not> contains ''FLAIR'' s" "\<not> contains ''EPI'' s" "\<not> contains ''FSE'' s"
    and "\<not> contains ''FLAIR'' s'" "\<not> contains ''EPI'' s'" "\<not> contains ''FSE'' s'"
  shows "calculate_image lb st s tr te ti fa slice_idx etl esp fov thickness gap matrix_size
             rotation view_plane
           = (case t1_vol st of
                None \<Rightarrow> Inr (None, st)
              | Some t1v \<Rightarrow>
                  cache_image lb st
                    (bind_err (extract_slab st t1v view_plane slice_idx thickness)
                       (\<lambda>(t1_s, t2_s, pd_s).
                     bind_err (broadcast3 (\<lambda>t1 t2 pd. calculate_signal_steady_state t1 t2 pd tr te fa)
                                 t1_s t2_s pd_s) (\<lambda>img.
                       resample lb (view_plane \<noteq> ''axial'') img fov thickness gap matrix_size
                         rotation))))
       \<and> (\<forall>a b c r i j.
             broadcast3 (\<lambda>t1 t2 pd. calculate_signal_steady_state t1 t2 pd tr te fa) a b c = Inr r
             \<and> i < nrows r \<and> j < ncols r \<longrightarrow>
             rows r ! i ! j = calculate_signal_steady_state (pix a i j) (pix b i j) (pix c i j) tr te fa)
       \<and> calculate_image lb st s tr te ti fa slice_idx etl esp fov thickness gap matrix_size
             rotation view_plane
           = calculate_image lb st s' tr te ti fa slice_idx etl esp fov thickness gap matrix_size
               rotation view_plane"
proof -
  have a: "apply_sequence lb s tr te ti fa etl esp
      = (\<lambda>a b c. broadcast3 (\<lambda>t1 t2 pd. calculate_signal_steady_state t1 t2 pd tr te fa) a b c)"
    using assms(1-3) by (intro ext) (rule apply_sequence_default)
  have a': "apply_sequence lb s' tr te ti fa etl esp
      = (\<lambda>a b c. broadcast3 (\<lambda>t1 t2 pd. calculate_signal_steady_state t1 t2 pd tr te fa) a b c)"
    using assms(4-6) by (intro ext) (rule apply_sequence_default)
  have 1: "calculate_image lb st s tr te ti fa slice_idx etl esp fov thickness gap matrix_size
             rotation view_plane
           = (case t1_vol st of
                None \<Rightarrow> Inr (None, st)
              | Some t1v \<Rightarrow>
                  cache_image lb st
                    (bind_err (extract_slab st t1v view_plane slice_idx thickness)
                       (\<lambda>(t1_s, t2_s, pd_s).
                     bind_err (broadcast3 (\<lambda>t1 t2 pd. calculate_signal_steady_state t1 t2 pd tr te fa)
                                 t1_s t2_s pd_s) (\<lambda>img.
                       resample lb (view_plane \<noteq> ''axial'') img fov thickness gap matrix_size
                         rotation))))"
    by (simp only: calculate_image_def form_image_def Let_def a)
  have 3: "calculate_image lb st s tr te ti fa slice_idx etl esp fov thickness gap matrix_size
             rotation view_plane
           = calculate_image lb st s' tr te ti fa slice_idx etl esp fov thickness gap matrix_size
               rotation view_plane"
    by (simp only: calculate_image_def form_image_def Let_def a a')
  have 2: "\<forall>a b c r i j.
             broadcast3 (\<lambda>t1 t2 pd. calculate_signal_steady_state t1 t2 pd tr te fa) a b c = Inr r
             \<and> i < nrows r \<and> j < ncols r \<longrightarrow>
             rows r ! i ! j = calculate_signal_steady_state (pix a i j) (pix b i j) (pix c i j) tr te fa"
    using broadcast3_pixels by blast
  from 1 2 3 show ?thesis by (intro conjI)
qed



lemma window_one_voxel: "axial_window 1 0 1 = Inr (0, 0, 1)"
  by (simp add: axial_window_def int_half_1)

lemma mean_one_voxel:
  assumes "\<bar>x\<bar> \<le> 2 ^ 1023"
  shows "mean_axis2 \<lparr>shape = [1, 1, 1], data = [Fin x]\<rparr> 0 1
     = Inr \<lparr>nrows = 1, ncols = 1, rows = [[Fin x]]\<rparr>"
proof -
  have "fdiv (fadd (Fin 0) (Fin x)) (Fin 1) = Fin x" using assms by (simp add: fin_mid)
  then show ?thesis
    by (simp add: mean_axis2_def dims3_def bind_err_def py_slice_def py_bound_def fmean_def
        at3_def)
qed

lemma extract_one_voxel:
  "extract_slab one_voxel \<lparr>shape = [1, 1, 1], data = [Fin 600]\<rparr> ''axial'' 0 1
     = Inr (\<lparr>nrows = 1, ncols = 1, rows = [[Fin 600]]\<rparr>,
            \<lparr>nrows = 1, ncols = 1, rows = [[Fin 70]]\<rparr>,
            \<lparr>nrows = 1, ncols = 1, rows = [[Fin (7 / 10)]]\<rparr>)"
proof -
  have ax: "(''axial'' \<noteq> ''axial'') = False" by simp
  have sh: "shape_at \<lparr>shape = [1, 1, 1], data = [Fin 600]\<rparr> 2 = Inr 1"
    by (simp add: shape_at_def)
  have i: "int 1 = 1" by simp
  have v2: "the_vol (t2_vol one_voxel) = Inr \<lparr>shape = [1, 1, 1], data = [Fin 70]\<rparr>"
    and vp: "the_vol (pd_vol one_voxel) = Inr \<lparr>shape = [1, 1, 1], data = [Fin (7 / 10)]\<rparr>"
    by (simp_all add: the_vol_def one_voxel_def no_volume_def)
  have m1: "mean_axis2 \<lparr>shape = [1, 1, 1], data = [Fin 600]\<rparr> 0 1
      = Inr \<lparr>nrows = 1, ncols = 1, rows = [[Fin 600]]\<rparr>"
    and m2: "mean_axis2 \<lparr>shape = [1, 1, 1], data = [Fin 70]\<rparr> 0 1
      = Inr \<lparr>nrows = 1, ncols = 1, rows = [[Fin 70]]\<rparr>"
    and m3: "mean_axis2 \<lparr>shape = [1, 1, 1], data = [Fin (7 / 10)]\<rparr> 0 1
      = Inr \<lparr>nrows = 1, ncols = 1, rows = [[Fin (7 / 10)]]\<rparr>"
    by (rule mean_one_voxel, simp)+
  show ?thesis
    by (simp only: extract_slab_def ax if_False sh bind_err_def sum.case i window_one_voxel
        prod.case m1 m2 m3 v2 vp)
qed

lemma signal_one_voxel:
  "broadcast3 f \<lparr>nrows = 1, ncols = 1, rows = [[a]]\<rparr> \<lparr>nrows = 1, ncols = 1, rows = [[b]]\<rparr>
      \<lparr>nrows = 1, ncols = 1, rows = [[c]]\<rparr>
     = Inr \<lparr>nrows = 1, ncols = 1, rows = [[f a b c]]\<rparr>"
  by (simp add: broadcast3_def bdim3_def bdim_def pix_def)

lemma target_one_voxel: "target_sizes test_lib False 1 240 1 0 2 = Inr (2, 2)"
proof -
  have i: "int_to_float 2 = Inr 2" using int_to_float_small[of 2] by simp
  have p: "fround test_lib (2 / 240) = Fin (1 / 120)" by (simp add: test_lib_def fin_small)
  have r: "rmul test_lib (Fin base_fov) (Fin (1 / 120)) = Fin 2"
    by (simp add: rmul_def test_lib_def base_fov_def fin_small)
  have t: "py_int (Fin 2) = Inr 2" by (simp add: py_int_def int_trunc_def)
  have z: "((240::real) = 0) = False" by simp
  show ?thesis
    by (simp only: target_sizes_def i bind_err_def sum.case z if_False Let_def p r t)
qed

lemma resample_const:
  "resample test_lib False \<lparr>nrows = 1, ncols = 1, rows = [[v]]\<rparr> 240 1 0 2 0
     = Inr \<lparr>nrows = 2, ncols = 2, rows = [[v, v], [v, v]]\<rparr>"
proof -
  have q: "int_truediv test_lib 2 1 = Fin 2" by (simp add: int_truediv_def test_lib_def fin_small)
  have u: "[0..<2] = [0, 1]" by (simp add: numeral_2_eq_2)
  have zm: "zoom test_lib \<lparr>nrows = 1, ncols = 1, rows = [[v]]\<rparr> (Fin 2) (Fin 2)
      = Inr \<lparr>nrows = 2, ncols = 2, rows = [[v, v], [v, v]]\<rparr>"
    by (simp add: test_lib_def nn_zoom_def u)
  have c: "crop_or_pad \<lparr>nrows = 2, ncols = 2, rows = [[v, v], [v, v]]\<rparr> 2
      = \<lparr>nrows = 2, ncols = 2, rows = [[v, v], [v, v]]\<rparr>"
    by (rule crop_or_pad_noop) simp_all
  have n: "(0 < nrows \<lparr>nrows = 1, ncols = 1, rows = [[v]]\<rparr>
      \<and> 0 < ncols \<lparr>nrows = 1, ncols = 1, rows = [[v]]\<rparr>) = True"
    "nrows \<lparr>nrows = 1, ncols = 1, rows = [[v]]\<rparr> = 1"
    "ncols \<lparr>nrows = 1, ncols = 1, rows = [[v]]\<rparr> = 1"
    "((0::real) \<noteq> 0) = False"
    by simp_all
  have o: "((0::nat) < 1 \<and> (0::nat) < 1) = True" by simp
  show ?thesis
    by (simp only: resample_def n o target_one_voxel bind_err_def sum.case prod.case if_True
        if_False Let_def q zm c)
qed

lemma t1_one_voxel: "t1_vol one_voxel = Some \<lparr>shape = [1, 1, 1], data = [Fin 600]\<rparr>"
  by (simp add: one_voxel_def no_volume_def)

lemma dft2_const:
  assumes "\<bar>x\<bar> \<le> 2"
  shows "dft2 \<lparr>nrows = 2, ncols = 2, rows = [[Fin x, Fin x], [Fin x, Fin x]]\<rparr>
     = Inr \<lparr>nrows = 2, ncols = 2, rows = [[Fin (4 * x), Fin 0], [Fin 0, Fin 0]]\<rparr>"
proof -
  have "\<bar>x + x\<bar> \<le> 4" using assms by linarith
  then have a: "fadd (Fin x) (Fin x) = Fin (x + x)" by (simp only: fadd.simps fin_small)
  have "(8::real) = 2 ^ 3" by simp
  moreover have "(2::real) ^ 3 \<le> 2 ^ 1023" by (rule power_increasing) simp_all
  ultimately have "\<bar>(x + x) + (x + x)\<bar> \<le> 2 ^ 1023" using assms by linarith
  then have b: "fadd (Fin (x + x)) (Fin (x + x)) = Fin ((x + x) + (x + x))"
    by (simp only: fadd.simps fin_mid)
  have c: "fsub (Fin x) (Fin x) = Fin 0" by (simp add: fsub_def fin_small)
  have d: "fsub (Fin (x + x)) (Fin (x + x)) = Fin 0" by (simp add: fsub_def fin_small)
  have e: "fadd (Fin 0) (Fin 0) = Fin 0" "fsub (Fin 0) (Fin 0) = Fin 0"
    by (simp_all add: fsub_def fin_small)
  have f: "(x + x) + (x + x) = 4 * x" by simp
  show ?thesis
    by (simp only: dft2_def img.simps list.case a b c d e f)
qed

lemma cache_const:
  assumes "\<bar>x\<bar> \<le> 2"
  shows "cache_image test_lib st
       (Inr \<lparr>nrows = 2, ncols = 2, rows = [[Fin x, Fin x], [Fin x, Fin x]]\<rparr>)
     = Inr (Some \<lparr>nrows = 2, ncols = 2, rows = [[Fin x, Fin x], [Fin x, Fin x]]\<rparr>,
            st\<lparr>current_image :=
                  Some \<lparr>nrows = 2, ncols = 2, rows = [[Fin x, Fin x], [Fin x, Fin x]]\<rparr>,
               k_space :=
                  Some \<lparr>nrows = 2, ncols = 2, rows = [[Fin 0, Fin 0], [Fin 0, Fin (4 * x)]]\<rparr>\<rparr>)"
proof -
  have f: "fft2 test_lib = dft2" by (simp add: test_lib_def)
  have s: "fftshift \<lparr>nrows = 2, ncols = 2, rows = [[Fin (4 * x), Fin 0], [Fin 0, Fin 0]]\<rparr>
      = \<lparr>nrows = 2, ncols = 2, rows = [[Fin 0, Fin 0], [Fin 0, Fin (4 * x)]]\<rparr>"
    by (simp add: fftshift_def shift_list_def)
  show ?thesis
    by (simp only: cache_image_def sum.case Let_def f dft2_const[OF assms] s)
qed

lemma render_one_voxel:
  assumes "apply_sequence test_lib s tr te ti fa etl esp
      \<lparr>nrows = 1, ncols = 1, rows = [[Fin 600]]\<rparr> \<lparr>nrows = 1, ncols = 1, rows = [[Fin 70]]\<rparr>
      \<lparr>nrows = 1, ncols = 1, rows = [[Fin (7 / 10)]]\<rparr>
     = Inr \<lparr>nrows = 1, ncols = 1, rows = [[Fin x]]\<rparr>"
    and "\<bar>x\<bar> \<le> 2"
  shows "calculate_image test_lib one_voxel s tr te ti fa 0 etl esp 240 1 0 2 0 ''axial''
     = Inr (Some \<lparr>nrows = 2, ncols = 2, rows = [[Fin x, Fin x], [Fin x, Fin x]]\<rparr>,
            one_voxel\<lparr>current_image :=
                  Some \<lparr>nrows = 2, ncols = 2, rows = [[Fin x, Fin x], [Fin x, Fin x]]\<rparr>,
               k_space :=
                  Some \<lparr>nrows = 2, ncols = 2, rows = [[Fin 0, Fin 0], [Fin 0, Fin (4 * x)]]\<rparr>\<rparr>)"
proof -
  have ax: "(''axial'' \<noteq> ''axial'') = False" by simp
  show ?thesis
    by (simp only: calculate_image_def t1_one_voxel option.case form_image_def Let_def ax
        extract_one_voxel bind_err_def sum.case prod.case assms(1) resample_const
        cache_const[OF assms(2)])
qed

text \<open>The two signals of a voxel of white matter at TR = 500, TE = 20, TI = 2000 and a
  flip angle of 90 degrees: both are exact, and the inversion-recovery one is the larger.\<close>

lemma spin_echo_white_matter:
  "calculate_signal_steady_state (Fin 600) (Fin 70) (Fin (7 / 10)) 500 20 90
     = Fin (7 / 10 * (1 - exp (- 5 / 6)) / (1 + 1 / 10 ^ 9) * exp (- 2 / 7))"
  "0 < 7 / 10 * (1 - exp (- 5 / 6)) / (1 + 1 / 10 ^ 9) * exp (- 2 / 7 :: real)"
  "7 / 10 * (1 - exp (- 5 / 6)) / (1 + 1 / 10 ^ 9) * exp (- 2 / 7 :: real) \<le> 1"
proof -
  define v where "v = 7 / 10 * (1 - exp (- 5 / 6 :: real))"
  have e: "0 < exp (- 5 / 6 :: real)" "exp (- 5 / 6 :: real) < 1" by simp_all
  have v: "0 < v" "v \<le> 1"
  proof -
    show "0 < v" using e by (simp add: v_def)
    have "v = 7 / 10 - 7 / 10 * exp (- 5 / 6)" by (simp add: v_def algebra_simps)
    moreover have "0 < 7 / 10 * exp (- 5 / 6 :: real)" by simp
    ultimately show "v \<le> 1" by linarith
  qed
  have "fin v = Fin v" using v by (intro fin_small) linarith
  then have n0: "fmul (Fin (7 / 10)) (Fin (1 - exp (- 5 / 6))) = Fin v"
    by (simp only: fmul.simps v_def)
  have n1: "fmul (Fin v) (Fin 1) = Fin v" using v by (simp add: fin_small)
  define w where "w = v / (1 + 1 / 10 ^ 9)"
  have w: "0 < w" "w \<le> 1"
  proof -
    show "0 < w" using v by (simp add: w_def field_simps)
    have "v / (1 + 1 / 10 ^ 9) \<le> v / 1" using v by (intro divide_left_mono) simp_all
    then show "w \<le> 1" using v by (simp add: w_def)
  qed
  have nz: "((1 + 1 / 10 ^ 9 :: real) = 0) = False" by simp
  have "fin w = Fin w" using w by (intro fin_small) linarith
  then have q1: "fdiv (Fin v) (Fin (1 + 1 / 10 ^ 9)) = Fin w"
    by (simp only: fdiv.simps nz if_False w_def)
  define u where "u = w * exp (- 2 / 7)"
  have e2: "0 < exp (- 2 / 7 :: real)" "exp (- 2 / 7 :: real) \<le> 1" by simp_all
  have u: "0 < u" "u \<le> 1"
  proof -
    show "0 < u" using w e2 by (simp add: u_def)
    have "w * exp (- 2 / 7) \<le> 1 * 1" using w e2 by (intro mult_mono) simp_all
    then show "u \<le> 1" by (simp add: u_def)
  qed
  have "fin u = Fin u" using u by (intro fin_small) linarith
  then have r1: "fmul (Fin w) (Fin (exp (- 2 / 7))) = Fin u"
    by (simp only: fmul.simps u_def)
  have "steady_state_signal (Fin 600) (Fin 70) (Fin (7 / 10)) 500 20 90 = Fin u"
    by (simp only: steady_state_signal_def Let_def white_matter_factors right_angle
        unit_denominator n0 n1 q1 r1)
  then have "calculate_signal_steady_state (Fin 600) (Fin 70) (Fin (7 / 10)) 500 20 90 = Fin u"
    by (simp add: calculate_signal_steady_state_def)
  moreover have ue: "u = 7 / 10 * (1 - exp (- 5 / 6)) / (1 + 1 / 10 ^ 9) * exp (- 2 / 7)"
    by (simp only: u_def w_def v_def)
  ultimately show "calculate_signal_steady_state (Fin 600) (Fin 70) (Fin (7 / 10)) 500 20 90
     = Fin (7 / 10 * (1 - exp (- 5 / 6)) / (1 + 1 / 10 ^ 9) * exp (- 2 / 7))" by (simp only:)
  show "0 < 7 / 10 * (1 - exp (- 5 / 6)) / (1 + 1 / 10 ^ 9) * exp (- 2 / 7 :: real)"
    using u(1) by (simp only: ue)
  show "7 / 10 * (1 - exp (- 5 / 6)) / (1 + 1 / 10 ^ 9) * exp (- 2 / 7 :: real) \<le> 1"
    using u(2) by (simp only: ue)
qed

lemma flair_white_matter:
  "inversion_recovery (Fin 600) (Fin 70) (Fin (7 / 10)) 500 20 2000 90
     = Fin (7 / 10 * (1 - 2 * exp (- 10 / 3) + exp (- 5 / 6)) * exp (- 2 / 7))"
  "7 / 10 * (1 - exp (- 5 / 6)) / (1 + 1 / 10 ^ 9) * exp (- 2 / 7 :: real)
     < 7 / 10 * (1 - 2 * exp (- 10 / 3) + exp (- 5 / 6)) * exp (- 2 / 7)"
  "7 / 10 * (1 - 2 * exp (- 10 / 3) + exp (- 5 / 6)) * exp (- 2 / 7 :: real) \<le> 2"
proof -
  define a where "a = exp (- 10 / 3 :: real)"
  define b where "b = exp (- 5 / 6 :: real)"
  define c where "c = exp (- 2 / 7 :: real)"
  have a: "0 < a" by (simp add: a_def)
  have b: "b < 1" by (simp add: b_def)
  have ab: "a < b" by (simp add: a_def b_def)
  have c: "0 < c" "c \<le> 1" by (simp_all add: c_def)
  define m where "m = 1 - 2 * a + b"
  have m: "1 - b < m" "m \<le> 2" using a b ab by (simp_all add: m_def)
  have t: "(2000::real) / 600 \<le> float_max" "(500::real) / 600 \<le> float_max"
    by (rule float_max_ge_small, simp)+
  have "mz_ti (Fin 600) 500 2000 = Fin (1 - 2 * exp (- 2000 / 600) + exp (- 500 / 600))"
    by (rule mz_ti_exact[OF _ _ _ t]) simp_all
  moreover have "exp (- 2000 / 600 :: real) = a" "exp (- 500 / 600 :: real) = b"
    by (simp_all add: a_def b_def)
  ultimately have mz: "mz_ti (Fin 600) 500 2000 = Fin m" by (simp only: m_def)
  define p where "p = 7 / 10 * m"
  have p: "0 < p" "p \<le> 2" using m b by (simp_all add: p_def)
  have "fin p = Fin p" using p by (intro fin_small) linarith
  then have n0: "fmul (Fin (7 / 10)) (Fin m) = Fin p" by (simp only: fmul.simps p_def)
  have n1: "fmul (Fin p) (Fin 1) = Fin p" using p by (simp add: fin_small)
  define u where "u = p * c"
  have u: "0 < u" "u \<le> 2"
  proof -
    show "0 < u" using p c by (simp add: u_def)
    have "p * c \<le> 2 * 1" using p c by (intro mult_mono) simp_all
    then show "u \<le> 2" by (simp add: u_def)
  qed
  have "fin u = Fin u" using u by (intro fin_small) linarith
  then have r1: "fmul (Fin p) (Fin c) = Fin u" by (simp only: fmul.simps u_def)
  have e2: "fexp (fdiv (Fin (- 20)) (Fin 70)) = Fin c"
    by (simp only: white_matter_factors c_def)
  have ab1: "fabs (Fin u) = Fin u" using u by simp
  have "inversion_recovery_signal (Fin 600) (Fin 70) (Fin (7 / 10)) 500 20 2000 90 = Fin u"
    by (simp only: inversion_recovery_signal_def Let_def right_angle mz n0 n1 e2 r1 ab1)
  then have "inversion_recovery (Fin 600) (Fin 70) (Fin (7 / 10)) 500 20 2000 90 = Fin u"
    by (simp add: inversion_recovery_def)
  moreover have ue: "u = 7 / 10 * (1 - 2 * exp (- 10 / 3) + exp (- 5 / 6)) * exp (- 2 / 7)"
    by (simp only: u_def p_def m_def a_def b_def c_def)
  ultimately show "inversion_recovery (Fin 600) (Fin 70) (Fin (7 / 10)) 500 20 2000 90
     = Fin (7 / 10 * (1 - 2 * exp (- 10 / 3) + exp (- 5 / 6)) * exp (- 2 / 7))" by (simp only:)
  show "7 / 10 * (1 - 2 * exp (- 10 / 3) + exp (- 5 / 6)) * exp (- 2 / 7 :: real) \<le> 2"
    using u(2) by (simp only: ue)
  have "7 / 10 * (1 - b) / (1 + 1 / 10 ^ 9) \<le> 7 / 10 * (1 - b) / 1"
    using b by (intro divide_left_mono) simp_all
  also have "\<dots> < p" using m by (simp add: p_def)
  finally have "7 / 10 * (1 - b) / (1 + 1 / 10 ^ 9) * c < p * c"
    using c by (simp only: mult_strict_right_mono)
  then show "7 / 10 * (1 - exp (- 5 / 6)) / (1 + 1 / 10 ^ 9) * exp (- 2 / 7 :: real)
     < 7 / 10 * (1 - 2 * exp (- 10 / 3) + exp (- 5 / 6)) * exp (- 2 / 7)"
    by (simp only: p_def m_def a_def b_def c_def)
qed



lemma flair_keyword: "contains ''FLAIR'' ''FLAIR''"
  by code_simp


text \<open>Claim C7 on concrete calls: on the one-voxel volume the names \<open>T1w\<close> and \<open>SE\<close> give the
  same image, whose entries are the steady-state spin-echo signal of the voxel, and the
  name \<open>FLAIR\<close> gives an image of larger entries, the inversion-recovery signal.\<close>

theorem unknown_sequence_is_spin_echo_witness:
  "\<not> contains ''FLAIR'' ''T1w'' \<and> \<not> contains ''EPI'' ''T1w'' \<and> \<not> contains ''FSE'' ''T1w''
   \<and> \<not> contains ''FLAIR'' ''SE'' \<and> \<not> contains ''EPI'' ''SE'' \<and> \<not> contains ''FSE'' ''SE''
   \<and> calculate_image test_lib one_voxel ''T1w'' 500 20 2000 90 0 1 10 240 1 0 2 0 ''axial''
     = Inr (Some \<lparr>nrows = 2, ncols = 2,
                  rows = [[Fin (7 / 10 * (1 - exp (- 5 / 6)) / (1 + 1 / 10 ^ 9) * exp (- 2 / 7)),
                           Fin (7 / 10 * (1 - exp (- 5 / 6)) / (1 + 1 / 10 ^ 9) * exp (- 2 / 7))],
                          [Fin (7 / 10 * (1 - exp (- 5 / 6)) / (1 + 1 / 10 ^ 9) * exp (- 2 / 7)),
                           Fin (7 / 10 * (1 - exp (- 5 / 6)) / (1 + 1 / 10 ^ 9) * exp (- 2 / 7))]]\<rparr>,
            one_voxel\<lparr>current_image := Some \<lparr>nrows = 2, ncols = 2,
                                        rows = [[Fin (7 / 10 * (1 - exp (- 5 / 6)) / (1 + 1 / 10 ^ 9) * exp (- 2 / 7)),
                                                 Fin (7 / 10 * (1 - exp (- 5 / 6)) / (1 + 1 / 10 ^ 9) * exp (- 2 / 7))],
                                                [Fin (7 / 10 * (1 - exp (- 5 / 6)) / (1 + 1 / 10 ^ 9) * exp (- 2 / 7)),
                                                 Fin (7 / 10 * (1 - exp (- 5 / 6)) / (1 + 1 / 10 ^ 9) * exp (- 2 / 7))]]\<rparr>,
                      k_space := Some \<lparr>nrows = 2, ncols = 2,
                                        rows = [[Fin 0, Fin 0],
                                                [Fin 0, Fin (4 * (7 / 10 * (1 - exp (- 5 / 6)) / (1 + 1 / 10 ^ 9) * exp (- 2 / 7)))]]\<rparr>\<rparr>)
   \<and> calculate_image test_lib one_voxel ''SE'' 500 20 2000 90 0 1 10 240 1 0 2 0 ''axial''
     = Inr (Some \<lparr>nrows = 2, ncols = 2,
                  rows = [[Fin (7 / 10 * (1 - exp (- 5 / 6)) / (1 + 1 / 10 ^ 9) * exp (- 2 / 7)),
                           Fin (7 / 10 * (1 - exp (- 5 / 6)) / (1 + 1 / 10 ^ 9) * exp (- 2 / 7))],
                          [Fin (7 / 10 * (1 - exp (- 5 / 6)) / (1 + 1 / 10 ^ 9) * exp (- 2 / 7)),
                           Fin (7 / 10 * (1 - exp (- 5 / 6)) / (1 + 1 / 10 ^ 9) * exp (- 2 / 7))]]\<rparr>,
            one_voxel\<lparr>current_image := Some \<lparr>nrows = 2, ncols = 2,
                                        rows = [[Fin (7 / 10 * (1 - exp (- 5 / 6)) / (1 + 1 / 10 ^ 9) * exp (- 2 / 7)),
                                                 Fin (7 / 10 * (1 - exp (- 5 / 6)) / (1 + 1 / 10 ^ 9) * exp (- 2 / 7))],
                                                [Fin (7 / 10 * (1 - exp (- 5 / 6)) / (1 + 1 / 10 ^ 9) * exp (- 2 / 7)),
                                                 Fin (7 / 10 * (1 - exp (- 5 / 6)) / (1 + 1 / 10 ^ 9) * exp (- 2 / 7))]]\<rparr>,
                      k_space := Some \<lparr>nrows = 2, ncols = 2,
                                        rows = [[Fin 0, Fin 0],
                                                [Fin 0, Fin (4 * (7 / 10 * (1 - exp (- 5 / 6)) / (1 + 1 / 10 ^ 9) * exp (- 2 / 7)))]]\<rparr>\<rparr>)
   \<and> calculate_image test_lib one_voxel ''FLAIR'' 500 20 2000 90 0 1 10 240 1 0 2 0 ''axial''
     = Inr (Some \<lparr>nrows = 2, ncols = 2,
                  rows = [[Fin (7 / 10 * (1 - 2 * exp (- 10 / 3) + exp (- 5 / 6)) * exp (- 2 / 7)),
                           Fin (7 / 10 * (1 - 2 * exp (- 10 / 3) + exp (- 5 / 6)) * exp (- 2 / 7))],
                          [Fin (7 / 10 * (1 - 2 * exp (- 10 / 3) + exp (- 5 / 6)) * exp (- 2 / 7)),
                           Fin (7 / 10 * (1 - 2 * exp (- 10 / 3) + exp (- 5 / 6)) * exp (- 2 / 7))]]\<rparr>,
            one_voxel\<lparr>current_image := Some \<lparr>nrows = 2, ncols = 2,
                                        rows = [[Fin (7 / 10 * (1 - 2 * exp (- 10 / 3) + exp (- 5 / 6)) * exp (- 2 / 7)),
                                                 Fin (7 / 10 * (1 - 2 * exp (- 10 / 3) + exp (- 5 / 6)) * exp (- 2 / 7))],
                                                [Fin (7 / 10 * (1 - 2 * exp (- 10 / 3) + exp (- 5 / 6)) * exp (- 2 / 7)),
                                                 Fin (7 / 10 * (1 - 2 * exp (- 10 / 3) + exp (- 5 / 6)) * exp (- 2 / 7))]]\<rparr>,
                      k_space := Some \<lparr>nrows = 2, ncols = 2,
                                        rows = [[Fin 0, Fin 0],
                                                [Fin 0, Fin (4 * (7 / 10 * (1 - 2 * exp (- 10 / 3) + exp (- 5 / 6)) * exp (- 2 / 7)))]]\<rparr>\<rparr>)
   \<and> 7 / 10 * (1 - exp (- 5 / 6)) / (1 + 1 / 10 ^ 9) * exp (- 2 / 7)
       < (7 / 10 * (1 - 2 * exp (- 10 / 3) + exp (- 5 / 6)) * exp (- 2 / 7) :: real)"
proof -
  have k: "\<not> contains ''FLAIR'' ''T1w''" "\<not> contains ''EPI'' ''T1w''" "\<not> contains ''FSE'' ''T1w''"
    "\<not> contains ''FLAIR'' ''SE''" "\<not> contains ''EPI'' ''SE''" "\<not> contains ''FSE'' ''SE''"
    using names_without_keyword by blast+
  note th = unknown_sequence_is_spin_echo [where s = "''T1w''" and s' = "''SE''"
      and lb = test_lib and st = one_voxel and tr = 500 and te = 20 and ti = 2000 and fa = 90
      and slice_idx = 0 and etl = 1 and esp = 10 and fov = 240 and thickness = 1 and gap = 0
      and matrix_size = 2 and rotation = 0 and view_plane = "''axial''", OF k]
  have ax: "(''axial'' \<noteq> ''axial'') = False" by simp
  have b: "\<bar>7 / 10 * (1 - exp (- 5 / 6)) / (1 + 1 / 10 ^ 9) * exp (- 2 / 7)\<bar> \<le> (2::real)"
    using spin_echo_white_matter(2,3) by linarith
  have p: "calculate_image test_lib one_voxel ''T1w'' 500 20 2000 90 0 1 10 240 1 0 2 0 ''axial''
     = (case t1_vol one_voxel of None \<Rightarrow> Inr (None, one_voxel)
        | Some t1v \<Rightarrow> cache_image test_lib one_voxel
            (bind_err (extract_slab one_voxel t1v ''axial'' 0 1) (\<lambda>(t1_s, t2_s, pd_s).
             bind_err (broadcast3 (\<lambda>t1 t2 pd. calculate_signal_steady_state t1 t2 pd 500 20 90)
                         t1_s t2_s pd_s) (\<lambda>img.
               resample test_lib (''axial'' \<noteq> ''axial'') img 240 1 0 2 0))))"
    using th by (rule conjunct1)
  have v1: "calculate_image test_lib one_voxel ''T1w'' 500 20 2000 90 0 1 10 240 1 0 2 0 ''axial''
     = Inr (Some \<lparr>nrows = 2, ncols = 2,
                  rows = [[Fin (7 / 10 * (1 - exp (- 5 / 6)) / (1 + 1 / 10 ^ 9) * exp (- 2 / 7)),
                           Fin (7 / 10 * (1 - exp (- 5 / 6)) / (1 + 1 / 10 ^ 9) * exp (- 2 / 7))],
                          [Fin (7 / 10 * (1 - exp (- 5 / 6)) / (1 + 1 / 10 ^ 9) * exp (- 2 / 7)),
                           Fin (7 / 10 * (1 - exp (- 5 / 6)) / (1 + 1 / 10 ^ 9) * exp (- 2 / 7))]]\<rparr>,
            one_voxel\<lparr>current_image := Some \<lparr>nrows = 2, ncols = 2,
                                        rows = [[Fin (7 / 10 * (1 - exp (- 5 / 6)) / (1 + 1 / 10 ^ 9) * exp (- 2 / 7)),
                                                 Fin (7 / 10 * (1 - exp (- 5 / 6)) / (1 + 1 / 10 ^ 9) * exp (- 2 / 7))],
                                                [Fin (7 / 10 * (1 - exp (- 5 / 6)) / (1 + 1 / 10 ^ 9) * exp (- 2 / 7)),
                                                 Fin (7 / 10 * (1 - exp (- 5 / 6)) / (1 + 1 / 10 ^ 9) * exp (- 2 / 7))]]\<rparr>,
                      k_space := Some \<lparr>nrows = 2, ncols = 2,
                                        rows = [[Fin 0, Fin 0],
                                                [Fin 0, Fin (4 * (7 / 10 * (1 - exp (- 5 / 6)) / (1 + 1 / 10 ^ 9) * exp (- 2 / 7)))]]\<rparr>\<rparr>)"
    by (simp only: p t1_one_voxel option.case ax extract_one_voxel bind_err_def sum.case
        prod.case signal_one_voxel spin_echo_white_matter(1) resample_const cache_const[OF b])
  have e: "calculate_image test_lib one_voxel ''T1w'' 500 20 2000 90 0 1 10 240 1 0 2 0 ''axial''
     = calculate_image test_lib one_voxel ''SE'' 500 20 2000 90 0 1 10 240 1 0 2 0 ''axial''"
    using th by blast
  have v2: "calculate_image test_lib one_voxel ''SE'' 500 20 2000 90 0 1 10 240 1 0 2 0 ''axial''
     = Inr (Some \<lparr>nrows = 2, ncols = 2,
                  rows = [[Fin (7 / 10 * (1 - exp (- 5 / 6)) / (1 + 1 / 10 ^ 9) * exp (- 2 / 7)),
                           Fin (7 / 10 * (1 - exp (- 5 / 6)) / (1 + 1 / 10 ^ 9) * exp (- 2 / 7))],
                          [Fin (7 / 10 * (1 - exp (- 5 / 6)) / (1 + 1 / 10 ^ 9) * exp (- 2 / 7)),
                           Fin (7 / 10 * (1 - exp (- 5 / 6)) / (1 + 1 / 10 ^ 9) * exp (- 2 / 7))]]\<rparr>,
            one_voxel\<lparr>current_image := Some \<lparr>nrows = 2, ncols = 2,
                                        rows = [[Fin (7 / 10 * (1 - exp (- 5 / 6)) / (1 + 1 / 10 ^ 9) * exp (- 2 / 7)),
                                                 Fin (7 / 10 * (1 - exp (- 5 / 6)) / (1 + 1 / 10 ^ 9) * exp (- 2 / 7))],
                                                [Fin (7 / 10 * (1 - exp (- 5 / 6)) / (1 + 1 / 10 ^ 9) * exp (- 2 / 7)),
                                                 Fin (7 / 10 * (1 - exp (- 5 / 6)) / (1 + 1 / 10 ^ 9) * exp (- 2 / 7))]]\<rparr>,
                      k_space := Some \<lparr>nrows = 2, ncols = 2,
                                        rows = [[Fin 0, Fin 0],
                                                [Fin 0, Fin (4 * (7 / 10 * (1 - exp (- 5 / 6)) / (1 + 1 / 10 ^ 9) * exp (- 2 / 7)))]]\<rparr>\<rparr>)"
    using e v1 by (simp only:)
  have a: "apply_sequence test_lib ''FLAIR'' 500 20 2000 90 1 10
      \<lparr>nrows = 1, ncols = 1, rows = [[Fin 600]]\<rparr> \<lparr>nrows = 1, ncols = 1, rows = [[Fin 70]]\<rparr>
      \<lparr>nrows = 1, ncols = 1, rows = [[Fin (7 / 10)]]\<rparr>
     = Inr \<lparr>nrows = 1, ncols = 1, rows = [[Fin (7 / 10 * (1 - 2 * exp (- 10 / 3) + exp (- 5 / 6)) * exp (- 2 / 7))]]\<rparr>"
    by (simp only: apply_sequence_def flair_keyword if_True signal_one_voxel
        flair_white_matter(1))
  have c: "\<bar>7 / 10 * (1 - 2 * exp (- 10 / 3) + exp (- 5 / 6)) * exp (- 2 / 7)\<bar> \<le> (2::real)"
    using flair_white_matter(2,3) spin_echo_white_matter(2) by linarith
  have v3: "calculate_image test_lib one_voxel ''FLAIR'' 500 20 2000 90 0 1 10 240 1 0 2 0 ''axial''
     = Inr (Some \<lparr>nrows = 2, ncols = 2,
                  rows = [[Fin (7 / 10 * (1 - 2 * exp (- 10 / 3) + exp (- 5 / 6)) * exp (- 2 / 7)),
                           Fin (7 / 10 * (1 - 2 * exp (- 10 / 3) + exp (- 5 / 6)) * exp (- 2 / 7))],
                          [Fin (7 / 10 * (1 - 2 * exp (- 10 / 3) + exp (- 5 / 6)) * exp (- 2 / 7)),
                           Fin (7 / 10 * (1 - 2 * exp (- 10 / 3) + exp (- 5 / 6)) * exp (- 2 / 7))]]\<rparr>,
            one_voxel\<lparr>current_image := Some \<lparr>nrows = 2, ncols = 2,
                                        rows = [[Fin (7 / 10 * (1 - 2 * exp (- 10 / 3) + exp (- 5 / 6)) * exp (- 2 / 7)),
                                                 Fin (7 / 10 * (1 - 2 * exp (- 10 / 3) + exp (- 5 / 6)) * exp (- 2 / 7))],
                                                [Fin (7 / 10 * (1 - 2 * exp (- 10 / 3) + exp (- 5 / 6)) * exp (- 2 / 7)),
                                                 Fin (7 / 10 * (1 - 2 * exp (- 10 / 3) + exp (- 5 / 6)) * exp (- 2 / 7))]]\<rparr>,
                      k_space := Some \<lparr>nrows = 2, ncols = 2,
                                        rows = [[Fin 0, Fin 0],
                                                [Fin 0, Fin (4 * (7 / 10 * (1 - 2 * exp (- 10 / 3) + exp (- 5 / 6)) * exp (- 2 / 7)))]]\<rparr>\<rparr>)"
    using a c by (rule render_one_voxel)
  show ?thesis
    using k v1 v2 v3 flair_white_matter(2) by blast
qed


text \<open>The entries of a returned image can be negative: the spin-echo image of the one-voxel
  volume at a flip angle of 270 degrees.\<close>

lemma render_negative_at_270:
  "calculate_image test_lib one_voxel ''SE'' 500 20 0 270 0 1 10 240 1 0 2 0 ''axial''
     = Inr (Some \<lparr>nrows = 2, ncols = 2,
                  rows = [[Fin (- (7 / 10 * (1 - exp (- 5 / 6))) / (1 + 1 / 10 ^ 9) * exp (- 2 / 7)),
                           Fin (- (7 / 10 * (1 - exp (- 5 / 6))) / (1 + 1 / 10 ^ 9) * exp (- 2 / 7))],
                          [Fin (- (7 / 10 * (1 - exp (- 5 / 6))) / (1 + 1 / 10 ^ 9) * exp (- 2 / 7)),
                           Fin (- (7 / 10 * (1 - exp (- 5 / 6))) / (1 + 1 / 10 ^ 9) * exp (- 2 / 7))]]\<rparr>,
            one_voxel\<lparr>current_image := Some \<lparr>nrows = 2, ncols = 2,
                                        rows = [[Fin (- (7 / 10 * (1 - exp (- 5 / 6))) / (1 + 1 / 10 ^ 9) * exp (- 2 / 7)),
                                                 Fin (- (7 / 10 * (1 - exp (- 5 / 6))) / (1 + 1 / 10 ^ 9) * exp (- 2 / 7))],
                                                [Fin (- (7 / 10 * (1 - exp (- 5 / 6))) / (1 + 1 / 10 ^ 9) * exp (- 2 / 7)),
                                                 Fin (- (7 / 10 * (1 - exp (- 5 / 6))) / (1 + 1 / 10 ^ 9) * exp (- 2 / 7))]]\<rparr>,
                      k_space := Some \<lparr>nrows = 2, ncols = 2,
                                        rows = [[Fin 0, Fin 0],
                                                [Fin 0, Fin (4 * (- (7 / 10 * (1 - exp (- 5 / 6))) / (1 + 1 / 10 ^ 9) * exp (- 2 / 7)))]]\<rparr>\<rparr>)
   \<and> - (7 / 10 * (1 - exp (- 5 / 6))) / (1 + 1 / 10 ^ 9) * exp (- 2 / 7) < (0::real)"
proof -
  have k: "\<not> contains ''FLAIR'' ''SE''" "\<not> contains ''EPI'' ''SE''" "\<not> contains ''FSE'' ''SE''"
    using names_without_keyword by blast+
  have s: "calculate_signal_steady_state (Fin 600) (Fin 70) (Fin (7 / 10)) 500 20 270
      = Fin (- (7 / 10 * (1 - exp (- 5 / 6))) / (1 + 1 / 10 ^ 9) * exp (- 2 / 7))"
    using spin_echo_negative_at_270(1) by (simp only: spin_echo_def)
  have a: "apply_sequence test_lib ''SE'' 500 20 0 270 1 10
      \<lparr>nrows = 1, ncols = 1, rows = [[Fin 600]]\<rparr> \<lparr>nrows = 1, ncols = 1, rows = [[Fin 70]]\<rparr>
      \<lparr>nrows = 1, ncols = 1, rows = [[Fin (7 / 10)]]\<rparr>
     = Inr \<lparr>nrows = 1, ncols = 1, rows = [[Fin (- (7 / 10 * (1 - exp (- 5 / 6))) / (1 + 1 / 10 ^ 9) * exp (- 2 / 7))]]\<rparr>"
    by (simp only: apply_sequence_default[OF k] signal_one_voxel s)
  have b: "\<bar>- (7 / 10 * (1 - exp (- 5 / 6))) / (1 + 1 / 10 ^ 9) * exp (- 2 / 7)\<bar> \<le> (2::real)"
    using spin_echo_negative_at_270(2,3) by linarith
  have r: "calculate_image test_lib one_voxel ''SE'' 500 20 0 270 0 1 10 240 1 0 2 0 ''axial''
     = Inr (Some \<lparr>nrows = 2, ncols = 2,
                  rows = [[Fin (- (7 / 10 * (1 - exp (- 5 / 6))) / (1 + 1 / 10 ^ 9) * exp (- 2 / 7)),
                           Fin (- (7 / 10 * (1 - exp (- 5 / 6))) / (1 + 1 / 10 ^ 9) * exp (- 2 / 7))],
                          [Fin (- (7 / 10 * (1 - exp (- 5 / 6))) / (1 + 1 / 10 ^ 9) * exp (- 2 / 7)),
                           Fin (- (7 / 10 * (1 - exp (- 5 / 6))) / (1 + 1 / 10 ^ 9) * exp (- 2 / 7))]]\<rparr>,
            one_voxel\<lparr>current_image := Some \<lparr>nrows = 2, ncols = 2,
                                        rows = [[Fin (- (7 / 10 * (1 - exp (- 5 / 6))) / (1 + 1 / 10 ^ 9) * exp (- 2 / 7)),
                                                 Fin (- (7 / 10 * (1 - exp (- 5 / 6))) / (1 + 1 / 10 ^ 9) * exp (- 2 / 7))],
                                                [Fin (- (7 / 10 * (1 - exp (- 5 / 6))) / (1 + 1 / 10 ^ 9) * exp (- 2 / 7)),
                                                 Fin (- (7 / 10 * (1 - exp (- 5 / 6))) / (1 + 1 / 10 ^ 9) * exp (- 2 / 7))]]\<rparr>,
                      k_space := Some \<lparr>nrows = 2, ncols = 2,
                                        rows = [[Fin 0, Fin 0],
                                                [Fin 0, Fin (4 * (- (7 / 10 * (1 - exp (- 5 / 6))) / (1 + 1 / 10 ^ 9) * exp (- 2 / 7)))]]\<rparr>\<rparr>)"
    using a b by (rule render_one_voxel)
  show ?thesis using r spin_echo_negative_at_270(2) by blast
qed


end
